theory Spec2Isabelle
  imports Main "HOL-Library.Sublist"
begin

section \<open>Go values used by the transport\<close>

text \<open>
  Go strings are byte strings: \<open>string\<close>. Go's \<open>int\<close> is \<open>int\<close>: the code only copies
  these numbers, it never computes with them. A field of type \<open>*int\<close> is \<open>None\<close> for
  \<open>nil\<close> and otherwise the address of an integer cell; the cells live in a store, a
  list indexed by address. Taking the address of a parameter (\<open>&id\<close>) makes a cell of
  its own for that parameter, so it is an allocation at the end of the store.
\<close>

type_synonym addr = nat
type_synonym memory = "int list"

definition new :: "memory \<Rightarrow> int \<Rightarrow> addr \<times> memory" where
  "new mem v = (length mem, mem @ [v])"

definition deref :: "memory \<Rightarrow> addr \<Rightarrow> int" where
  "deref mem p = mem ! p"

definition allocated :: "memory \<Rightarrow> addr option \<Rightarrow> bool" where
  "allocated mem q = (case q of None \<Rightarrow> True | Some p \<Rightarrow> p < length mem)"

text \<open>\<open>strings.HasPrefix(s, prefix)\<close> and \<open>strings.Contains(s, substr)\<close>.\<close>

definition HasPrefix :: "string \<Rightarrow> string \<Rightarrow> bool" where
  "HasPrefix s pre = prefix pre s"

definition Contains :: "string \<Rightarrow> string \<Rightarrow> bool" where
  "Contains s substr = sublist substr s"

section \<open>The option set and its builders (package services)\<close>

text \<open>
  Modelled from the spec: the declaration of \<open>sl.Options\<close> is not among the sources. Its
  fields are the OptionSet of the spec (id, mask, filter, limit, offset) with the names and
  types that the builders and \<open>DoRequest\<close> use: \<open>Id\<close>, \<open>Limit\<close> and \<open>Offset\<close> are \<open>*int\<close>,
  \<open>Mask\<close> and \<open>Filter\<close> are strings. The field \<open>Id\<close> is written \<open>Id'\<close>.
\<close>

record Options =
  Id' :: "addr option"
  Mask :: string
  Filter :: string
  Limit :: "addr option"
  Offset :: "addr option"

text \<open>
  Modelled from the spec: the declaration of \<open>session.Session\<close> is not among the sources.
  Its fields are those of the spec's Session, under the names \<open>DoRequest\<close> reads.
\<close>

record Session =
  Endpoint :: string
  UserName :: string
  APIKey :: string
  Debug :: bool

text \<open>
  \<open>type Compliance_Report_Type struct { Session *session.Session; Options sl.Options }\<close>.
  The option set is held by value. No modelled code writes through the session pointer, so
  the session is held by value as well.
\<close>

record Compliance_Report_Type =
  Session :: Session
  Options :: Options

text \<open>\<open>GetComplianceReportTypeService\<close>: the option set starts as the zero value.\<close>

definition GetComplianceReportTypeService :: "Session \<Rightarrow> Compliance_Report_Type" where
  "GetComplianceReportTypeService sess =
     \<lparr>Session = sess,
      Options = \<lparr>Id' = None, Mask = [], Filter = [], Limit = None, Offset = None\<rparr>\<rparr>"

text \<open>
  The builders have value receivers: each works on its own copy \<open>r\<close> of the receiver and
  returns it. A copy shares the integer cells that the receiver's \<open>*int\<close> fields point to.
\<close>

definition Compliance_Report_Type_Id ::
  "Compliance_Report_Type \<Rightarrow> int \<Rightarrow> memory \<Rightarrow> Compliance_Report_Type \<times> memory" where
  "Compliance_Report_Type_Id r idv mem =
     (case new mem idv of
        (p, mem') \<Rightarrow> (r\<lparr>Options := (Options r)\<lparr>Id' := Some p\<rparr>\<rparr>, mem'))"

definition Compliance_Report_Type_Mask ::
  "Compliance_Report_Type \<Rightarrow> string \<Rightarrow> Compliance_Report_Type" where
  "Compliance_Report_Type_Mask r mask0 =
     (let mask1 = (if \<not> HasPrefix mask0 ''mask['' \<and> Contains mask0 ''[''
                   then ''mask['' @ mask0 @ '']'' else mask0)
      in r\<lparr>Options := (Options r)\<lparr>Mask := mask1\<rparr>\<rparr>)"

definition Compliance_Report_Type_Filter ::
  "Compliance_Report_Type \<Rightarrow> string \<Rightarrow> Compliance_Report_Type" where
  "Compliance_Report_Type_Filter r filter' = r\<lparr>Options := (Options r)\<lparr>Filter := filter'\<rparr>\<rparr>"

definition Compliance_Report_Type_Limit ::
  "Compliance_Report_Type \<Rightarrow> int \<Rightarrow> memory \<Rightarrow> Compliance_Report_Type \<times> memory" where
  "Compliance_Report_Type_Limit r limit mem =
     (case new mem limit of
        (p, mem') \<Rightarrow> (r\<lparr>Options := (Options r)\<lparr>Limit := Some p\<rparr>\<rparr>, mem'))"

definition Compliance_Report_Type_Offset ::
  "Compliance_Report_Type \<Rightarrow> int \<Rightarrow> memory \<Rightarrow> Compliance_Report_Type \<times> memory" where
  "Compliance_Report_Type_Offset r offset mem =
     (case new mem offset of
        (p, mem') \<Rightarrow> (r\<lparr>Options := (Options r)\<lparr>Offset := Some p\<rparr>\<rparr>, mem'))"

section \<open>The XML-RPC transport (package session)\<close>

text \<open>\<open>time.Duration\<close> counts nanoseconds; \<open>DefaultXmlRpcTimeout = time.Second*30\<close>.\<close>

type_synonym Duration = int

definition Second :: Duration where
  "Second = 1000000000"

definition DefaultXmlRpcTimeout :: Duration where
  "DefaultXmlRpcTimeout = Second * 30"

record XmlRpcTransport =
  Timeout :: Duration

text \<open>
  The only \<open>http.RoundTripper\<close> the transport makes is \<open>debugRoundTripper{}\<close>; the \<open>nil\<close>
  interface value is \<open>None\<close>.
\<close>

datatype RoundTripper = debugRoundTripper

text \<open>
  The values of type \<open>interface{}\<close> that reach the parameter array: the three map types
  the transport builds, the map that \<open>json.Unmarshal\<close> fills (its contents are the
  library's business: \<open>'m\<close>), and whatever the caller passes as arguments (\<open>'a\<close>).
\<close>

datatype ('a, 'm) interface =
    map_string_string "string \<rightharpoonup> string"
  | map_string_int "string \<rightharpoonup> int"
  | map_string_interface "string \<rightharpoonup> ('a, 'm) interface"
  | unmarshalled 'm
  | other 'a

text \<open>
  The libraries the transport calls are not part of the repository and are parameters of
  the model: \<open>xmlrpc.NewClient(url, roundTripper, timeout)\<close>, \<open>json.Unmarshal\<close> into a
  \<open>map[string]interface{}\<close>, and \<open>client.Call(method, params, pResult)\<close>, each returning
  a library error \<open>'e\<close> or its result.
\<close>

record ('c, 'e, 'm, 'a, 'r) library =
  NewClient :: "string \<Rightarrow> RoundTripper option \<Rightarrow> Duration \<Rightarrow> 'e + 'c"
  Unmarshal :: "string \<Rightarrow> 'e + 'm"
  Call :: "'c \<Rightarrow> string \<Rightarrow> ('a, 'm) interface list \<Rightarrow> 'e + 'r"

text \<open>
  What \<open>DoRequest\<close> returns when it fails: the two errors it formats itself
  (\<open>"Could not create an xmlrpc client for %s: %s"\<close> with the service and the library's
  error, \<open>"Error encoding object filter: %s"\<close>), or the error of \<open>client.Call\<close> as it is.
\<close>

datatype 'e error =
    Could_not_create_client string 'e
  | Error_encoding_object_filter 'e
  | Call_failed 'e

text \<open>
  The library calls one invocation makes, in order. A client construction is recorded with
  its three arguments, a remote call with the client, the method and the parameter array.
\<close>

datatype ('c, 'a, 'm) event =
    NewClient_called string "RoundTripper option" Duration
  | Call_called 'c string "('a, 'm) interface list"

text \<open>
  Lines 153 to 177: look the service up in the pool \<open>xmlRpcClients\<close>; on a miss construct
  a client and store it. The result is the error or the client, the pool afterwards and
  the library calls made.
\<close>

definition DoRequest_client ::
  "('c, 'e, 'm, 'a, 'r) library \<Rightarrow> XmlRpcTransport \<Rightarrow> Session \<Rightarrow> string \<Rightarrow> (string \<rightharpoonup> 'c)
     \<Rightarrow> ('e error + 'c) \<times> (string \<rightharpoonup> 'c) \<times> ('c, 'a, 'm) event list" where
  "DoRequest_client lib x sess service xmlRpcClients =
     (case xmlRpcClients service of
        Some client \<Rightarrow> (Inr client, xmlRpcClients, [])
      | None \<Rightarrow>
          (let roundTripper = (if Debug sess then Some debugRoundTripper else None);
               timeout = (if Timeout x \<noteq> 0 then Timeout x else DefaultXmlRpcTimeout);
               url = Endpoint sess @ ''/'' @ service
           in case NewClient lib url roundTripper timeout of
                Inl err \<Rightarrow>
                  (Inl (Could_not_create_client service err), xmlRpcClients,
                   [NewClient_called url roundTripper timeout])
              | Inr client \<Rightarrow>
                  (Inr client, xmlRpcClients(service \<mapsto> client),
                   [NewClient_called url roundTripper timeout])))"

text \<open>Lines 183 to 188: the header map starts with the credentials.\<close>

definition headers_authenticate :: "Session \<Rightarrow> (string \<rightharpoonup> ('a, 'm) interface)" where
  "headers_authenticate sess =
     [''authenticate'' \<mapsto>
        map_string_string [''username'' \<mapsto> UserName sess, ''apiKey'' \<mapsto> APIKey sess]]"

text \<open>Lines 190 to 194.\<close>

definition headers_InitParameters ::
  "memory \<Rightarrow> string \<Rightarrow> Options \<Rightarrow> (string \<rightharpoonup> ('a, 'm) interface)
     \<Rightarrow> (string \<rightharpoonup> ('a, 'm) interface)" where
  "headers_InitParameters mem service options headers =
     (case Id' options of
        None \<Rightarrow> headers
      | Some p \<Rightarrow>
          headers(service @ ''InitParameters'' \<mapsto> map_string_int [''id'' \<mapsto> deref mem p]))"

text \<open>Lines 196 to 202.\<close>

definition headers_ObjectMask ::
  "Options \<Rightarrow> (string \<rightharpoonup> ('a, 'm) interface) \<Rightarrow> (string \<rightharpoonup> ('a, 'm) interface)" where
  "headers_ObjectMask options headers =
     (let mask0 = Mask options
      in if mask0 \<noteq> '''' then
           (let mask1 = (if \<not> HasPrefix mask0 ''mask['' then ''mask['' @ mask0 @ '']''
                         else mask0)
            in headers(''SoftLayer_ObjectMask'' \<mapsto> map_string_string [''mask'' \<mapsto> mask1]))
         else headers)"

text \<open>Lines 204 to 217: the only step of the header map that can fail.\<close>

definition headers_ObjectFilter ::
  "('c, 'e, 'm, 'a, 'r) library \<Rightarrow> string \<Rightarrow> Options \<Rightarrow> (string \<rightharpoonup> ('a, 'm) interface)
     \<Rightarrow> 'e error + (string \<rightharpoonup> ('a, 'm) interface)" where
  "headers_ObjectFilter lib service options headers =
     (if Filter options \<noteq> '''' then
        (case Unmarshal lib (Filter options) of
           Inl err \<Rightarrow> Inl (Error_encoding_object_filter err)
         | Inr objFilter \<Rightarrow> Inr (headers(service @ ''ObjectFilter'' \<mapsto> unmarshalled objFilter)))
      else Inr headers)"

text \<open>Lines 219 to 229.\<close>

definition headers_resultLimit ::
  "memory \<Rightarrow> Options \<Rightarrow> (string \<rightharpoonup> ('a, 'm) interface) \<Rightarrow> (string \<rightharpoonup> ('a, 'm) interface)" where
  "headers_resultLimit mem options headers =
     (case Limit options of
        None \<Rightarrow> headers
      | Some pl \<Rightarrow>
          (let offset = (case Offset options of None \<Rightarrow> 0 | Some po \<Rightarrow> deref mem po)
           in headers(''resultLimit'' \<mapsto>
                map_string_int [''limit'' \<mapsto> deref mem pl, ''offset'' \<mapsto> offset])))"

text \<open>Lines 183 to 229 in sequence: the header map, or the filter error.\<close>

definition DoRequest_headers ::
  "('c, 'e, 'm, 'a, 'r) library \<Rightarrow> memory \<Rightarrow> Session \<Rightarrow> string \<Rightarrow> Options
     \<Rightarrow> 'e error + (string \<rightharpoonup> ('a, 'm) interface)" where
  "DoRequest_headers lib mem sess service options =
     (case headers_ObjectFilter lib service options
             (headers_ObjectMask options
               (headers_InitParameters mem service options (headers_authenticate sess))) of
        Inl err \<Rightarrow> Inl err
      | Inr headers \<Rightarrow> Inr (headers_resultLimit mem options headers))"

text \<open>Lines 232 to 240: the header map first, then the caller's arguments.\<close>

definition DoRequest_params ::
  "(string \<rightharpoonup> ('a, 'm) interface) \<Rightarrow> ('a, 'm) interface list \<Rightarrow> ('a, 'm) interface list" where
  "DoRequest_params headers args =
     foldl (\<lambda>params a. params @ [a])
       [map_string_interface [''headers'' \<mapsto> map_string_interface headers]] args"

text \<open>
  \<open>func (x *XmlRpcTransport) DoRequest(sess, service, method, args, options, pResult) error\<close>.
  The store \<open>mem\<close> holds the cells the option pointers refer to; the pool
  \<open>xmlRpcClients\<close> is the package variable, passed in and returned. The result of the
  remote call stands for what \<open>client.Call\<close> writes to \<open>pResult\<close>.
\<close>

definition DoRequest ::
  "('c, 'e, 'm, 'a, 'r) library \<Rightarrow> XmlRpcTransport \<Rightarrow> memory \<Rightarrow> Session \<Rightarrow> string \<Rightarrow> string
     \<Rightarrow> ('a, 'm) interface list \<Rightarrow> Options \<Rightarrow> (string \<rightharpoonup> 'c)
     \<Rightarrow> ('e error + 'r) \<times> (string \<rightharpoonup> 'c) \<times> ('c, 'a, 'm) event list" where
  "DoRequest lib x mem sess service method args options xmlRpcClients =
     (case DoRequest_client lib x sess service xmlRpcClients of
        (Inl err, pool, evs) \<Rightarrow> (Inl err, pool, evs)
      | (Inr client, pool, evs) \<Rightarrow>
          (case DoRequest_headers lib mem sess service options of
             Inl err \<Rightarrow> (Inl err, pool, evs)
           | Inr headers \<Rightarrow>
               (let params = DoRequest_params headers args
                in (case Call lib client method params of
                      Inl err \<Rightarrow> Inl (Call_failed err)
                    | Inr res \<Rightarrow> Inr res,
                    pool, evs @ [Call_called client method params]))))"

section \<open>What a reader of an option set finds\<close>

text \<open>
  The OptionSet of the data model: the optional numbers are read through the pointers, as
  \<open>DoRequest\<close> reads them (\<open>*options.Id\<close>), the strings are taken as they are.
\<close>

record OptionSet =
  opt_id :: "int option"
  opt_mask :: string
  opt_filter :: string
  opt_limit :: "int option"
  opt_offset :: "int option"

definition OptionSet_of :: "memory \<Rightarrow> Options \<Rightarrow> OptionSet" where
  "OptionSet_of mem options =
     \<lparr>opt_id = map_option (deref mem) (Id' options),
      opt_mask = Mask options,
      opt_filter = Filter options,
      opt_limit = map_option (deref mem) (Limit options),
      opt_offset = map_option (deref mem) (Offset options)\<rparr>"

text \<open>Every pointer of the option set refers to a cell of the store.\<close>

definition Options_allocated :: "memory \<Rightarrow> Options \<Rightarrow> bool" where
  "Options_allocated mem options =
     (allocated mem (Id' options) \<and> allocated mem (Limit options) \<and>
      allocated mem (Offset options))"

section \<open>The JSON decoder the transport calls (Go's encoding/json)\<close>

text \<open>
  \<open>json.Unmarshal\<close> belongs to Go's standard library, not to the repository. To evaluate
  the transport on filter strings, the part of it that decides between an error and a
  result for a target of type \<open>map[string]interface{}\<close> is written out here: the scanner
  that \<open>checkValid\<close> runs over the bytes (scanner.go, as of the Go releases of 2016, which
  have no nesting limit), and the dispatch on the kind of the top-level value (decode.go).
  The parse stack has its top at the head of the list. The byte offset that a syntax error
  carries is left out.
\<close>

datatype parse_state = parseObjectKey | parseObjectValue | parseArrayValue

datatype step_state =
    StateBeginValueOrEmpty | StateBeginValue | StateBeginStringOrEmpty | StateBeginString
  | StateEndValue | StateEndTop
  | StateInString | StateInStringEsc | StateInStringEscU | StateInStringEscU1
  | StateInStringEscU12 | StateInStringEscU123
  | StateNeg | State1 | State0 | StateDot | StateDot0 | StateE | StateESign | StateE0
  | StateT | StateTr | StateTru | StateF | StateFa | StateFal | StateFals
  | StateN | StateNu | StateNul | StateError

datatype opcode =
    scanContinue | scanBeginLiteral | scanBeginObject | scanObjectKey | scanObjectValue
  | scanEndObject | scanBeginArray | scanArrayValue | scanEndArray | scanSkipSpace
  | scanEnd | scanError

text \<open>
  \<open>SyntaxError\<close>: \<open>"invalid character " + quoteChar(c) + " " + context\<close>, or
  \<open>"unexpected end of JSON input"\<close>.
\<close>

datatype SyntaxError = invalid_character char string | unexpected_end_of_JSON_input

record scanner =
  scan_step :: step_state
  parseState :: "parse_state list"
  scan_err :: "SyntaxError option"
  endTop :: bool

definition reset :: scanner where
  "reset = \<lparr>scan_step = StateBeginValue, parseState = [], scan_err = None, endTop = False\<rparr>"

definition isSpace :: "char \<Rightarrow> bool" where
  "isSpace c = (c = CHR '' '' \<or> c = CHR 0x09 \<or> c = CHR 0x0D \<or> c = CHR 0x0A)"

definition isDigit :: "char \<Rightarrow> bool" where
  "isDigit c = ((of_char (CHR ''0'') :: nat) \<le> of_char c \<and> (of_char c :: nat) \<le> of_char (CHR ''9''))"

definition isDigit19 :: "char \<Rightarrow> bool" where
  "isDigit19 c = ((of_char (CHR ''1'') :: nat) \<le> of_char c \<and> (of_char c :: nat) \<le> of_char (CHR ''9''))"

definition isHex :: "char \<Rightarrow> bool" where
  "isHex c =
     (isDigit c \<or>
      (of_char (CHR ''a'') :: nat) \<le> of_char c \<and> (of_char c :: nat) \<le> of_char (CHR ''f'') \<or>
      (of_char (CHR ''A'') :: nat) \<le> of_char c \<and> (of_char c :: nat) \<le> of_char (CHR ''F''))"

text \<open>\<open>s.error(c, context)\<close>.\<close>

definition scan_error :: "scanner \<Rightarrow> char \<Rightarrow> string \<Rightarrow> scanner \<times> opcode" where
  "scan_error s c context =
     (s\<lparr>scan_step := StateError, scan_err := Some (invalid_character c context)\<rparr>, scanError)"

definition pushParseState :: "scanner \<Rightarrow> parse_state \<Rightarrow> scanner" where
  "pushParseState s p = s\<lparr>parseState := p # parseState s\<rparr>"

definition popParseState :: "scanner \<Rightarrow> scanner" where
  "popParseState s =
     (let rest = tl (parseState s)
      in if rest = [] then s\<lparr>parseState := rest, scan_step := StateEndTop, endTop := True\<rparr>
         else s\<lparr>parseState := rest, scan_step := StateEndValue\<rparr>)"

definition stateEndTop :: "scanner \<Rightarrow> char \<Rightarrow> scanner \<times> opcode" where
  "stateEndTop s c =
     (if \<not> isSpace c then (fst (scan_error s c ''after top-level value''), scanEnd)
      else (s, scanEnd))"

definition stateEndValue :: "scanner \<Rightarrow> char \<Rightarrow> scanner \<times> opcode" where
  "stateEndValue s c =
     (case parseState s of
        [] \<Rightarrow> stateEndTop (s\<lparr>scan_step := StateEndTop, endTop := True\<rparr>) c
      | ps # rest \<Rightarrow>
          if isSpace c then (s\<lparr>scan_step := StateEndValue\<rparr>, scanSkipSpace)
          else
            (case ps of
               parseObjectKey \<Rightarrow>
                 if c = CHR '':''
                 then (s\<lparr>parseState := parseObjectValue # rest, scan_step := StateBeginValue\<rparr>,
                       scanObjectKey)
                 else scan_error s c ''after object key''
             | parseObjectValue \<Rightarrow>
                 if c = CHR '',''
                 then (s\<lparr>parseState := parseObjectKey # rest, scan_step := StateBeginString\<rparr>,
                       scanObjectValue)
                 else if c = CHR ''}'' then (popParseState s, scanEndObject)
                 else scan_error s c ''after object key:value pair''
             | parseArrayValue \<Rightarrow>
                 if c = CHR '','' then (s\<lparr>scan_step := StateBeginValue\<rparr>, scanArrayValue)
                 else if c = CHR '']'' then (popParseState s, scanEndArray)
                 else scan_error s c ''after array element''))"

definition stateBeginValue :: "scanner \<Rightarrow> char \<Rightarrow> scanner \<times> opcode" where
  "stateBeginValue s c =
     (if isSpace c then (s, scanSkipSpace)
      else if c = CHR ''{''
        then (pushParseState (s\<lparr>scan_step := StateBeginStringOrEmpty\<rparr>) parseObjectKey,
              scanBeginObject)
      else if c = CHR ''[''
        then (pushParseState (s\<lparr>scan_step := StateBeginValueOrEmpty\<rparr>) parseArrayValue,
              scanBeginArray)
      else if c = CHR 0x22 then (s\<lparr>scan_step := StateInString\<rparr>, scanBeginLiteral)
      else if c = CHR ''-'' then (s\<lparr>scan_step := StateNeg\<rparr>, scanBeginLiteral)
      else if c = CHR ''0'' then (s\<lparr>scan_step := State0\<rparr>, scanBeginLiteral)
      else if c = CHR ''t'' then (s\<lparr>scan_step := StateT\<rparr>, scanBeginLiteral)
      else if c = CHR ''f'' then (s\<lparr>scan_step := StateF\<rparr>, scanBeginLiteral)
      else if c = CHR ''n'' then (s\<lparr>scan_step := StateN\<rparr>, scanBeginLiteral)
      else if isDigit19 c then (s\<lparr>scan_step := State1\<rparr>, scanBeginLiteral)
      else scan_error s c ''looking for beginning of value'')"

definition stateBeginValueOrEmpty :: "scanner \<Rightarrow> char \<Rightarrow> scanner \<times> opcode" where
  "stateBeginValueOrEmpty s c =
     (if isSpace c then (s, scanSkipSpace)
      else if c = CHR '']'' then stateEndValue s c
      else stateBeginValue s c)"

definition stateBeginString :: "scanner \<Rightarrow> char \<Rightarrow> scanner \<times> opcode" where
  "stateBeginString s c =
     (if isSpace c then (s, scanSkipSpace)
      else if c = CHR 0x22 then (s\<lparr>scan_step := StateInString\<rparr>, scanBeginLiteral)
      else scan_error s c ''looking for beginning of object key string'')"

definition stateBeginStringOrEmpty :: "scanner \<Rightarrow> char \<Rightarrow> scanner \<times> opcode" where
  "stateBeginStringOrEmpty s c =
     (if isSpace c then (s, scanSkipSpace)
      else if c = CHR ''}''
        then stateEndValue (s\<lparr>parseState := parseObjectValue # tl (parseState s)\<rparr>) c
      else stateBeginString s c)"

definition stateInString :: "scanner \<Rightarrow> char \<Rightarrow> scanner \<times> opcode" where
  "stateInString s c =
     (if c = CHR 0x22 then (s\<lparr>scan_step := StateEndValue\<rparr>, scanContinue)
      else if c = CHR 0x5C then (s\<lparr>scan_step := StateInStringEsc\<rparr>, scanContinue)
      else if (of_char c :: nat) < 0x20 then scan_error s c ''in string literal''
      else (s, scanContinue))"

definition stateInStringEsc :: "scanner \<Rightarrow> char \<Rightarrow> scanner \<times> opcode" where
  "stateInStringEsc s c =
     (if c \<in> set [CHR ''b'', CHR ''f'', CHR ''n'', CHR ''r'', CHR ''t'', CHR 0x5C, CHR ''/'',
                   CHR 0x22]
      then (s\<lparr>scan_step := StateInString\<rparr>, scanContinue)
      else if c = CHR ''u'' then (s\<lparr>scan_step := StateInStringEscU\<rparr>, scanContinue)
      else scan_error s c ''in string escape code'')"

text \<open>The four states of the hexadecimal digits after \<open>\u\<close>, by the state that follows.\<close>

definition stateInStringEscU_digit ::
  "step_state \<Rightarrow> scanner \<Rightarrow> char \<Rightarrow> scanner \<times> opcode" where
  "stateInStringEscU_digit next_state s c =
     (if isHex c then (s\<lparr>scan_step := next_state\<rparr>, scanContinue)
      else scan_error s c (''in '' @ [CHR 0x5C] @ ''u hexadecimal character escape''))"

definition state0 :: "scanner \<Rightarrow> char \<Rightarrow> scanner \<times> opcode" where
  "state0 s c =
     (if c = CHR ''.'' then (s\<lparr>scan_step := StateDot\<rparr>, scanContinue)
      else if c = CHR ''e'' \<or> c = CHR ''E'' then (s\<lparr>scan_step := StateE\<rparr>, scanContinue)
      else stateEndValue s c)"

definition state1 :: "scanner \<Rightarrow> char \<Rightarrow> scanner \<times> opcode" where
  "state1 s c =
     (if isDigit c then (s\<lparr>scan_step := State1\<rparr>, scanContinue) else state0 s c)"

definition stateNeg :: "scanner \<Rightarrow> char \<Rightarrow> scanner \<times> opcode" where
  "stateNeg s c =
     (if c = CHR ''0'' then (s\<lparr>scan_step := State0\<rparr>, scanContinue)
      else if isDigit19 c then (s\<lparr>scan_step := State1\<rparr>, scanContinue)
      else scan_error s c ''in numeric literal'')"

definition stateDot :: "scanner \<Rightarrow> char \<Rightarrow> scanner \<times> opcode" where
  "stateDot s c =
     (if isDigit c then (s\<lparr>scan_step := StateDot0\<rparr>, scanContinue)
      else scan_error s c ''after decimal point in numeric literal'')"

definition stateDot0 :: "scanner \<Rightarrow> char \<Rightarrow> scanner \<times> opcode" where
  "stateDot0 s c =
     (if isDigit c then (s, scanContinue)
      else if c = CHR ''e'' \<or> c = CHR ''E'' then (s\<lparr>scan_step := StateE\<rparr>, scanContinue)
      else stateEndValue s c)"

definition stateESign :: "scanner \<Rightarrow> char \<Rightarrow> scanner \<times> opcode" where
  "stateESign s c =
     (if isDigit c then (s\<lparr>scan_step := StateE0\<rparr>, scanContinue)
      else scan_error s c ''in exponent of numeric literal'')"

definition stateE :: "scanner \<Rightarrow> char \<Rightarrow> scanner \<times> opcode" where
  "stateE s c =
     (if c = CHR ''+'' \<or> c = CHR ''-'' then (s\<lparr>scan_step := StateESign\<rparr>, scanContinue)
      else stateESign s c)"

definition stateE0 :: "scanner \<Rightarrow> char \<Rightarrow> scanner \<times> opcode" where
  "stateE0 s c = (if isDigit c then (s, scanContinue) else stateEndValue s c)"

text \<open>
  The states inside \<open>true\<close>, \<open>false\<close> and \<open>null\<close>: the byte expected, the state that
  follows, and the literal for the error text.
\<close>

definition state_literal ::
  "char \<Rightarrow> step_state \<Rightarrow> string \<Rightarrow> scanner \<Rightarrow> char \<Rightarrow> scanner \<times> opcode" where
  "state_literal expected next_state literal s c =
     (if c = expected then (s\<lparr>scan_step := next_state\<rparr>, scanContinue)
      else scan_error s c (''in literal '' @ literal @ '' (expecting '' @ [CHR 0x27, expected, CHR 0x27] @ '')''))"

text \<open>\<open>s.step(s, c)\<close>: the state function that the field \<open>step\<close> holds.\<close>

definition scanner_step :: "scanner \<Rightarrow> char \<Rightarrow> scanner \<times> opcode" where
  "scanner_step s c =
     (case scan_step s of
        StateBeginValueOrEmpty \<Rightarrow> stateBeginValueOrEmpty s c
      | StateBeginValue \<Rightarrow> stateBeginValue s c
      | StateBeginStringOrEmpty \<Rightarrow> stateBeginStringOrEmpty s c
      | StateBeginString \<Rightarrow> stateBeginString s c
      | StateEndValue \<Rightarrow> stateEndValue s c
      | StateEndTop \<Rightarrow> stateEndTop s c
      | StateInString \<Rightarrow> stateInString s c
      | StateInStringEsc \<Rightarrow> stateInStringEsc s c
      | StateInStringEscU \<Rightarrow> stateInStringEscU_digit StateInStringEscU1 s c
      | StateInStringEscU1 \<Rightarrow> stateInStringEscU_digit StateInStringEscU12 s c
      | StateInStringEscU12 \<Rightarrow> stateInStringEscU_digit StateInStringEscU123 s c
      | StateInStringEscU123 \<Rightarrow> stateInStringEscU_digit StateInString s c
      | StateNeg \<Rightarrow> stateNeg s c
      | State1 \<Rightarrow> state1 s c
      | State0 \<Rightarrow> state0 s c
      | StateDot \<Rightarrow> stateDot s c
      | StateDot0 \<Rightarrow> stateDot0 s c
      | StateE \<Rightarrow> stateE s c
      | StateESign \<Rightarrow> stateESign s c
      | StateE0 \<Rightarrow> stateE0 s c
      | StateT \<Rightarrow> state_literal (CHR ''r'') StateTr ''true'' s c
      | StateTr \<Rightarrow> state_literal (CHR ''u'') StateTru ''true'' s c
      | StateTru \<Rightarrow> state_literal (CHR ''e'') StateEndValue ''true'' s c
      | StateF \<Rightarrow> state_literal (CHR ''a'') StateFa ''false'' s c
      | StateFa \<Rightarrow> state_literal (CHR ''l'') StateFal ''false'' s c
      | StateFal \<Rightarrow> state_literal (CHR ''s'') StateFals ''false'' s c
      | StateFals \<Rightarrow> state_literal (CHR ''e'') StateEndValue ''false'' s c
      | StateN \<Rightarrow> state_literal (CHR ''u'') StateNu ''null'' s c
      | StateNu \<Rightarrow> state_literal (CHR ''l'') StateNul ''null'' s c
      | StateNul \<Rightarrow> state_literal (CHR ''l'') StateEndValue ''null'' s c
      | StateError \<Rightarrow> (s, scanError))"

text \<open>\<open>s.eof()\<close>.\<close>

definition eof :: "scanner \<Rightarrow> scanner \<times> opcode" where
  "eof s =
     (if scan_err s \<noteq> None then (s, scanError)
      else if endTop s then (s, scanEnd)
      else
        (let s' = fst (scanner_step s (CHR '' ''))
         in if endTop s' then (s', scanEnd)
            else if scan_err s' = None
              then (s'\<lparr>scan_err := Some unexpected_end_of_JSON_input\<rparr>, scanError)
            else (s', scanError)))"

text \<open>
  \<open>checkValid(data, scan)\<close>: the loop over the bytes, which returns \<open>scan.err\<close> at the
  first \<open>scanError\<close>, then the end of input. \<open>None\<close> is the \<open>nil\<close> error.
\<close>

fun checkValid_bytes :: "scanner \<Rightarrow> string \<Rightarrow> SyntaxError option + scanner" where
  "checkValid_bytes s [] = Inr s"
| "checkValid_bytes s (c # data) =
     (case scanner_step s c of
        (s', code) \<Rightarrow> if code = scanError then Inl (scan_err s') else checkValid_bytes s' data)"

definition checkValid :: "string \<Rightarrow> SyntaxError option" where
  "checkValid data =
     (case checkValid_bytes reset data of
        Inl e \<Rightarrow> e
      | Inr s \<Rightarrow> (case eof s of (s', code) \<Rightarrow> if code = scanError then scan_err s' else None))"

text \<open>
  What \<open>Unmarshal\<close> returns as error: the syntax error of \<open>checkValid\<close>, or
  \<open>UnmarshalTypeError\<close> with the kind of JSON value that does not fit the target.
\<close>

datatype json_error = Syntax SyntaxError | UnmarshalTypeError string

text \<open>
  \<open>json.Unmarshal(data, &objFilter)\<close> for \<open>objFilter\<close> of type \<open>map[string]interface{}\<close>.
  After \<open>checkValid\<close> the decoder skips the leading space and dispatches on the first byte
  of the value: an object is decoded into the map (\<open>d_object\<close>, a parameter: decoding the
  members can fail, for a number outside the range of \<open>float64\<close>); an array, a string, a
  number, \<open>true\<close> and \<open>false\<close> do not fit a map and give \<open>UnmarshalTypeError\<close>; \<open>null\<close> sets
  the map to \<open>nil\<close> and is no error. The result is \<open>None\<close> for the \<open>nil\<close> map.
\<close>

definition Unmarshal_map :: "(string \<Rightarrow> json_error + 'o) \<Rightarrow> string \<Rightarrow> json_error + 'o option" where
  "Unmarshal_map d_object data =
     (case checkValid data of
        Some e \<Rightarrow> Inl (Syntax e)
      | None \<Rightarrow>
          (case dropWhile isSpace data of
             [] \<Rightarrow> Inl (Syntax unexpected_end_of_JSON_input)
           | c # rest \<Rightarrow>
               if c = CHR ''{'' then
                 (case d_object data of Inl e \<Rightarrow> Inl e | Inr m \<Rightarrow> Inr (Some m))
               else if c = CHR ''['' then Inl (UnmarshalTypeError ''array'')
               else if c = CHR ''n'' then Inr None
               else if c = CHR ''t'' \<or> c = CHR ''f'' then Inl (UnmarshalTypeError ''bool'')
               else if c = CHR 0x22 then Inl (UnmarshalTypeError ''string'')
               else Inl (UnmarshalTypeError ''number'')))"

section \<open>The keys of the header map are distinct\<close>

lemma key_InitParameters_last: "s @ ''InitParameters'' = k \<Longrightarrow> last k = CHR ''s''"
  by auto

lemma key_ObjectFilter_last: "s @ ''ObjectFilter'' = k \<Longrightarrow> last k = CHR ''r''"
  by auto

lemma InitParameters_neq [simp]:
  "s @ ''InitParameters'' \<noteq> ''authenticate''"
  "s @ ''InitParameters'' \<noteq> ''SoftLayer_ObjectMask''"
  "s @ ''InitParameters'' \<noteq> ''resultLimit''"
  "s @ ''InitParameters'' \<noteq> s' @ ''ObjectFilter''"
  "''authenticate'' \<noteq> s @ ''InitParameters''"
  "''SoftLayer_ObjectMask'' \<noteq> s @ ''InitParameters''"
  "''resultLimit'' \<noteq> s @ ''InitParameters''"
  "s' @ ''ObjectFilter'' \<noteq> s @ ''InitParameters''"
  using key_InitParameters_last [of s] key_ObjectFilter_last [of s'] by fastforce+

lemma ObjectFilter_neq [simp]:
  "s @ ''ObjectFilter'' \<noteq> ''authenticate''"
  "s @ ''ObjectFilter'' \<noteq> ''SoftLayer_ObjectMask''"
  "s @ ''ObjectFilter'' \<noteq> ''resultLimit''"
  "''authenticate'' \<noteq> s @ ''ObjectFilter''"
  "''SoftLayer_ObjectMask'' \<noteq> s @ ''ObjectFilter''"
  "''resultLimit'' \<noteq> s @ ''ObjectFilter''"
  using key_ObjectFilter_last [of s] by fastforce+

section \<open>The remote call that an invocation makes\<close>

lemma DoRequest_params_eq:
  "DoRequest_params headers args =
     map_string_interface [''headers'' \<mapsto> map_string_interface headers] # args"
proof -
  have "foldl (\<lambda>params a. params @ [a]) acc args = acc @ args"
    for acc :: "('a, 'b) interface list"
    by (induction args arbitrary: acc) simp_all
  then show ?thesis by (simp add: DoRequest_params_def)
qed

lemma DoRequest_Call_called:
  assumes "DoRequest lib x mem sess service method args options pool = (res, pool', evs)"
      and "Call_called c m ps \<in> set evs"
  shows "\<exists>headers. DoRequest_headers lib mem sess service options = Inr headers \<and>
           ps = map_string_interface [''headers'' \<mapsto> map_string_interface headers] # args \<and>
           m = method \<and> fst (DoRequest_client lib x sess service pool) = Inr c"
  using assms
  by (auto simp: DoRequest_def DoRequest_client_def DoRequest_params_eq Let_def
           split: prod.splits sum.splits option.splits if_splits)

section \<open>The entries of the header map\<close>

lemma headers_authenticate_entry:
  assumes "DoRequest_headers lib mem sess service options = Inr headers"
  shows "headers ''authenticate'' =
           Some (map_string_string [''username'' \<mapsto> UserName sess, ''apiKey'' \<mapsto> APIKey sess])"
  using assms
  by (auto simp: DoRequest_headers_def headers_authenticate_def headers_InitParameters_def
        headers_ObjectMask_def headers_ObjectFilter_def headers_resultLimit_def Let_def
      split: sum.splits option.splits if_splits)

lemma headers_InitParameters_entry:
  assumes "DoRequest_headers lib mem sess service options = Inr headers"
  shows "headers (service @ ''InitParameters'') =
           (case opt_id (OptionSet_of mem options) of
              None \<Rightarrow> None
            | Some v \<Rightarrow> Some (map_string_int [''id'' \<mapsto> v]))"
  using assms
  by (auto simp: DoRequest_headers_def headers_authenticate_def headers_InitParameters_def
        headers_ObjectMask_def headers_ObjectFilter_def headers_resultLimit_def Let_def
        OptionSet_of_def
      split: sum.splits option.splits if_splits)

lemma headers_ObjectMask_entry:
  assumes "DoRequest_headers lib mem sess service options = Inr headers"
  shows "headers ''SoftLayer_ObjectMask'' =
           (if Mask options = '''' then None
            else Some (map_string_string
                   [''mask'' \<mapsto> (if HasPrefix (Mask options) ''mask['' then Mask options
                                 else ''mask['' @ Mask options @ '']'')]))"
  using assms
  by (auto simp: DoRequest_headers_def headers_authenticate_def headers_InitParameters_def
        headers_ObjectMask_def headers_ObjectFilter_def headers_resultLimit_def Let_def
      split: sum.splits option.splits if_splits)

lemma headers_resultLimit_entry:
  assumes "DoRequest_headers lib mem sess service options = Inr headers"
  shows "headers ''resultLimit'' =
           (case opt_limit (OptionSet_of mem options) of
              None \<Rightarrow> None
            | Some l \<Rightarrow>
                Some (map_string_int
                  [''limit'' \<mapsto> l,
                   ''offset'' \<mapsto> (case opt_offset (OptionSet_of mem options) of
                                    None \<Rightarrow> 0 | Some v \<Rightarrow> v)]))"
  using assms
  by (auto simp: DoRequest_headers_def headers_authenticate_def headers_InitParameters_def
        headers_ObjectMask_def headers_ObjectFilter_def headers_resultLimit_def Let_def
        OptionSet_of_def
      split: sum.splits option.splits if_splits)

lemma headers_only_id:
  assumes "DoRequest_headers lib mem sess service options = Inr headers"
      and "OptionSet_of mem options =
             \<lparr>opt_id = Some v, opt_mask = '''', opt_filter = '''', opt_limit = None,
              opt_offset = None\<rparr>"
  shows "headers =
           [''authenticate'' \<mapsto>
              map_string_string [''username'' \<mapsto> UserName sess, ''apiKey'' \<mapsto> APIKey sess],
            service @ ''InitParameters'' \<mapsto> map_string_int [''id'' \<mapsto> v]]"
  using assms
  by (auto simp: DoRequest_headers_def headers_authenticate_def headers_InitParameters_def
        headers_ObjectMask_def headers_ObjectFilter_def headers_resultLimit_def Let_def
        OptionSet_of_def
      split: sum.splits option.splits if_splits)

section \<open>Claims\<close>

text \<open>
  C4. Whenever an invocation makes a remote call, the first element of the parameter array is
  the one-key map \<open>{headers: h}\<close>, \<open>h\<close> holds the entry \<open>authenticate\<close> with the session's
  user name and API key, and the caller's arguments follow in their order, unchanged. For
  user name \<open>u\<close>, API key \<open>k\<close>, service \<open>Widget\<close>, an option set with only the id 42 and no
  arguments, the parameter array is exactly
  \<open>[{headers: {authenticate: {username: u, apiKey: k}, WidgetInitParameters: {id: 42}}}]\<close>.
\<close>

theorem outbound_parameters:
  assumes "DoRequest lib x mem sess service method args options pool = (res, pool', evs)"
      and "Call_called c m ps \<in> set evs"
  shows "\<exists>headers.
           ps = map_string_interface [''headers'' \<mapsto> map_string_interface headers] # args \<and>
           headers ''authenticate'' =
             Some (map_string_string
                     [''username'' \<mapsto> UserName sess, ''apiKey'' \<mapsto> APIKey sess]) \<and>
           (UserName sess = ''u'' \<and> APIKey sess = ''k'' \<and> service = ''Widget'' \<and> args = [] \<and>
            OptionSet_of mem options =
              \<lparr>opt_id = Some 42, opt_mask = '''', opt_filter = '''', opt_limit = None,
               opt_offset = None\<rparr> \<longrightarrow>
            ps = [map_string_interface
                    [''headers'' \<mapsto>
                       map_string_interface
                         [''authenticate'' \<mapsto>
                            map_string_string [''username'' \<mapsto> ''u'', ''apiKey'' \<mapsto> ''k''],
                          ''WidgetInitParameters'' \<mapsto> map_string_int [''id'' \<mapsto> 42]]]])"
proof -
  from DoRequest_Call_called [OF assms] obtain headers where
    h: "DoRequest_headers lib mem sess service options = Inr headers" and
    ps: "ps = map_string_interface [''headers'' \<mapsto> map_string_interface headers] # args"
    by blast
  have auth: "headers ''authenticate'' =
             Some (map_string_string
                     [''username'' \<mapsto> UserName sess, ''apiKey'' \<mapsto> APIKey sess])"
    by (rule headers_authenticate_entry [OF h])
  have ex: "ps = [map_string_interface
                    [''headers'' \<mapsto>
                       map_string_interface
                         [''authenticate'' \<mapsto>
                            map_string_string [''username'' \<mapsto> ''u'', ''apiKey'' \<mapsto> ''k''],
                          ''WidgetInitParameters'' \<mapsto> map_string_int [''id'' \<mapsto> 42]]]]"
    if "UserName sess = ''u''" "APIKey sess = ''k''" "service = ''Widget''" "args = []"
       "OptionSet_of mem options =
              \<lparr>opt_id = Some 42, opt_mask = '''', opt_filter = '''', opt_limit = None,
               opt_offset = None\<rparr>"
    using headers_only_id [OF h that(5)] that(1-4) ps by simp
  from ps auth ex show ?thesis by blast
qed


theorem outbound_parameters_witness:
  "\<exists>res pool' evs c m ps.
     DoRequest
       (\<lparr>NewClient = (\<lambda>url roundTripper timeout. Inr url), Unmarshal = (\<lambda>data. Inr data),
         Call = (\<lambda>client method params. Inr (length params))\<rparr>
          :: (string, unit, string, unit, nat) library)
       \<lparr>Timeout = 0\<rparr> [42]
       \<lparr>Endpoint = ''https://api.example.com'', UserName = ''u'', APIKey = ''k'',
        Debug = False\<rparr>
       ''Widget'' ''getObject'' []
       \<lparr>Id' = Some 0, Mask = '''', Filter = '''', Limit = None, Offset = None\<rparr>
       Map.empty = (res, pool', evs) \<and>
     Call_called c m ps \<in> set evs \<and>
     ps = [map_string_interface
             [''headers'' \<mapsto>
                map_string_interface
                  [''authenticate'' \<mapsto>
                     map_string_string [''username'' \<mapsto> ''u'', ''apiKey'' \<mapsto> ''k''],
                   ''WidgetInitParameters'' \<mapsto> map_string_int [''id'' \<mapsto> 42]]]]"
proof -
  let ?lib = "\<lparr>NewClient = (\<lambda>url roundTripper timeout. Inr url),
               Unmarshal = (\<lambda>data. Inr data),
               Call = (\<lambda>client method params. Inr (length params))\<rparr>
                :: (string, unit, string, unit, nat) library"
  let ?sess = "\<lparr>Endpoint = ''https://api.example.com'', UserName = ''u'', APIKey = ''k'',
                Debug = False\<rparr>"
  let ?options = "\<lparr>Id' = Some 0, Mask = '''', Filter = '''', Limit = None, Offset = None\<rparr>"
  obtain res pool' evs where
    run: "DoRequest ?lib \<lparr>Timeout = 0\<rparr> [42] ?sess ''Widget'' ''getObject'' [] ?options
            Map.empty = (res, pool', evs)"
    using prod_cases3 by blast
  then obtain ps where ev: "Call_called ''https://api.example.com/Widget'' ''getObject'' ps \<in> set evs"
    by (auto simp: DoRequest_def DoRequest_client_def DoRequest_headers_def
          headers_ObjectFilter_def Let_def)
  have view: "OptionSet_of [42] ?options =
              \<lparr>opt_id = Some 42, opt_mask = '''', opt_filter = '''', opt_limit = None,
               opt_offset = None\<rparr>"
    by (simp add: OptionSet_of_def deref_def)
  from outbound_parameters [OF run ev] view
  have "ps = [map_string_interface
             [''headers'' \<mapsto>
                map_string_interface
                  [''authenticate'' \<mapsto>
                     map_string_string [''username'' \<mapsto> ''u'', ''apiKey'' \<mapsto> ''k''],
                   ''WidgetInitParameters'' \<mapsto> map_string_int [''id'' \<mapsto> 42]]]]"
    by auto
  with run ev show ?thesis by blast
qed

text \<open>
  C2. Whenever an invocation makes a remote call: if the limit is set and the offset is not,
  the header map has \<open>resultLimit = {limit: l, offset: 0}\<close>; if both are set it has
  \<open>resultLimit = {limit: l, offset: off}\<close> with both values as they are; if the limit is not
  set there is no \<open>resultLimit\<close> entry, whatever the offset.
\<close>

theorem resultLimit_header:
  assumes "DoRequest lib x mem sess service method args options pool = (res, pool', evs)"
      and "Call_called c m ps \<in> set evs"
  shows "\<exists>headers.
           ps = map_string_interface [''headers'' \<mapsto> map_string_interface headers] # args \<and>
           (\<forall>l. opt_limit (OptionSet_of mem options) = Some l \<and>
                opt_offset (OptionSet_of mem options) = None \<longrightarrow>
                headers ''resultLimit'' =
                  Some (map_string_int [''limit'' \<mapsto> l, ''offset'' \<mapsto> 0])) \<and>
           (\<forall>l off. opt_limit (OptionSet_of mem options) = Some l \<and>
                opt_offset (OptionSet_of mem options) = Some off \<longrightarrow>
                headers ''resultLimit'' =
                  Some (map_string_int [''limit'' \<mapsto> l, ''offset'' \<mapsto> off])) \<and>
           (opt_limit (OptionSet_of mem options) = None \<longrightarrow> headers ''resultLimit'' = None)"
proof -
  from DoRequest_Call_called [OF assms] obtain headers where
    h: "DoRequest_headers lib mem sess service options = Inr headers" and
    ps: "ps = map_string_interface [''headers'' \<mapsto> map_string_interface headers] # args"
    by blast
  from headers_resultLimit_entry [OF h] ps show ?thesis
    by (intro exI [of _ headers]) (simp split: option.splits)
qed

theorem resultLimit_header_witness:
  "(\<exists>res pool' evs c m headers.
      DoRequest
        (\<lparr>NewClient = (\<lambda>url roundTripper timeout. Inr url), Unmarshal = (\<lambda>data. Inr data),
          Call = (\<lambda>client method params. Inr (length params))\<rparr>
           :: (string, unit, string, unit, nat) library)
        \<lparr>Timeout = 0\<rparr> [25, 50]
        \<lparr>Endpoint = ''https://api.example.com'', UserName = ''u'', APIKey = ''k'',
         Debug = False\<rparr>
        ''Widget'' ''getAllObjects'' []
        \<lparr>Id' = None, Mask = '''', Filter = '''', Limit = Some 0, Offset = None\<rparr>
        Map.empty = (res, pool', evs) \<and>
      Call_called c m [map_string_interface [''headers'' \<mapsto> map_string_interface headers]]
        \<in> set evs \<and>
      headers ''resultLimit'' = Some (map_string_int [''limit'' \<mapsto> 25, ''offset'' \<mapsto> 0])) \<and>
   (\<exists>res pool' evs c m headers.
      DoRequest
        (\<lparr>NewClient = (\<lambda>url roundTripper timeout. Inr url), Unmarshal = (\<lambda>data. Inr data),
          Call = (\<lambda>client method params. Inr (length params))\<rparr>
           :: (string, unit, string, unit, nat) library)
        \<lparr>Timeout = 0\<rparr> [25, 50]
        \<lparr>Endpoint = ''https://api.example.com'', UserName = ''u'', APIKey = ''k'',
         Debug = False\<rparr>
        ''Widget'' ''getAllObjects'' []
        \<lparr>Id' = None, Mask = '''', Filter = '''', Limit = Some 0, Offset = Some 1\<rparr>
        Map.empty = (res, pool', evs) \<and>
      Call_called c m [map_string_interface [''headers'' \<mapsto> map_string_interface headers]]
        \<in> set evs \<and>
      headers ''resultLimit'' = Some (map_string_int [''limit'' \<mapsto> 25, ''offset'' \<mapsto> 50])) \<and>
   (\<exists>res pool' evs c m headers.
      DoRequest
        (\<lparr>NewClient = (\<lambda>url roundTripper timeout. Inr url), Unmarshal = (\<lambda>data. Inr data),
          Call = (\<lambda>client method params. Inr (length params))\<rparr>
           :: (string, unit, string, unit, nat) library)
        \<lparr>Timeout = 0\<rparr> [25, 50]
        \<lparr>Endpoint = ''https://api.example.com'', UserName = ''u'', APIKey = ''k'',
         Debug = False\<rparr>
        ''Widget'' ''getAllObjects'' []
        \<lparr>Id' = None, Mask = '''', Filter = '''', Limit = None, Offset = Some 1\<rparr>
        Map.empty = (res, pool', evs) \<and>
      Call_called c m [map_string_interface [''headers'' \<mapsto> map_string_interface headers]]
        \<in> set evs \<and>
      headers ''resultLimit'' = None)"
proof -
  let ?lib = "\<lparr>NewClient = (\<lambda>url roundTripper timeout. Inr url),
               Unmarshal = (\<lambda>data. Inr data),
               Call = (\<lambda>client method params. Inr (length params))\<rparr>
                :: (string, unit, string, unit, nat) library"
  let ?sess = "\<lparr>Endpoint = ''https://api.example.com'', UserName = ''u'', APIKey = ''k'',
                Debug = False\<rparr>"
  have witness: "\<exists>res pool' evs c m headers.
      DoRequest ?lib \<lparr>Timeout = 0\<rparr> [25, 50] ?sess ''Widget'' ''getAllObjects'' [] options
        Map.empty = (res, pool', evs) \<and>
      Call_called c m [map_string_interface [''headers'' \<mapsto> map_string_interface headers]]
        \<in> set evs \<and>
      headers ''resultLimit'' = expected"
    if f: "Filter options = ''''"
      and l: "\<And>l. opt_limit (OptionSet_of [25, 50] options) = Some l \<and>
                opt_offset (OptionSet_of [25, 50] options) = None \<longrightarrow>
                Some (map_string_int [''limit'' \<mapsto> l, ''offset'' \<mapsto> 0]) = expected"
      and lo: "\<And>l off. opt_limit (OptionSet_of [25, 50] options) = Some l \<and>
                opt_offset (OptionSet_of [25, 50] options) = Some off \<longrightarrow>
                Some (map_string_int [''limit'' \<mapsto> l, ''offset'' \<mapsto> off]) = expected"
      and n: "opt_limit (OptionSet_of [25, 50] options) = None \<longrightarrow> None = expected"
    for options and expected :: "(unit, string) interface option"
  proof -
    obtain res pool' evs where
      run: "DoRequest ?lib \<lparr>Timeout = 0\<rparr> [25, 50] ?sess ''Widget'' ''getAllObjects'' []
              options Map.empty = (res, pool', evs)"
      using prod_cases3 by blast
    then obtain ps where
      ev: "Call_called ''https://api.example.com/Widget'' ''getAllObjects'' ps \<in> set evs"
      using f
      by (auto simp: DoRequest_def DoRequest_client_def DoRequest_headers_def
            headers_ObjectFilter_def Let_def)
    from resultLimit_header [OF run ev] l lo n obtain headers where
      "ps = [map_string_interface [''headers'' \<mapsto> map_string_interface headers]]"
      "headers ''resultLimit'' = expected"
      by (cases "opt_limit (OptionSet_of [25, 50] options)";
          cases "opt_offset (OptionSet_of [25, 50] options)") auto
    with run ev show ?thesis by blast
  qed
  show ?thesis
    by (intro conjI witness) (simp_all add: OptionSet_of_def deref_def)
qed

text \<open>
  C3. Whenever an invocation makes a remote call: if the id is set, the header map holds
  under the key \<open>service @ "InitParameters"\<close> the one-entry map \<open>{id: v}\<close>; if the id is not
  set, the header map has no such key.
\<close>

theorem InitParameters_header:
  assumes "DoRequest lib x mem sess service method args options pool = (res, pool', evs)"
      and "Call_called c m ps \<in> set evs"
  shows "\<exists>headers.
           ps = map_string_interface [''headers'' \<mapsto> map_string_interface headers] # args \<and>
           (\<forall>v. opt_id (OptionSet_of mem options) = Some v \<longrightarrow>
                headers (service @ ''InitParameters'') = Some (map_string_int [''id'' \<mapsto> v])) \<and>
           (opt_id (OptionSet_of mem options) = None \<longrightarrow>
                headers (service @ ''InitParameters'') = None)"
proof -
  from DoRequest_Call_called [OF assms] obtain headers where
    h: "DoRequest_headers lib mem sess service options = Inr headers" and
    ps: "ps = map_string_interface [''headers'' \<mapsto> map_string_interface headers] # args"
    by blast
  from headers_InitParameters_entry [OF h] ps show ?thesis
    by (intro exI [of _ headers]) (simp split: option.splits)
qed

theorem InitParameters_header_witness:
  "(\<exists>res pool' evs c m headers.
      DoRequest
        (\<lparr>NewClient = (\<lambda>url roundTripper timeout. Inr url), Unmarshal = (\<lambda>data. Inr data),
          Call = (\<lambda>client method params. Inr (length params))\<rparr>
           :: (string, unit, string, unit, nat) library)
        \<lparr>Timeout = 0\<rparr> [7]
        \<lparr>Endpoint = ''https://api.example.com'', UserName = ''u'', APIKey = ''k'',
         Debug = False\<rparr>
        ''SoftLayer_Account'' ''getObject'' []
        \<lparr>Id' = Some 0, Mask = ''id'', Filter = ''{}'', Limit = Some 0, Offset = None\<rparr>
        Map.empty = (res, pool', evs) \<and>
      Call_called c m [map_string_interface [''headers'' \<mapsto> map_string_interface headers]]
        \<in> set evs \<and>
      headers ''SoftLayer_AccountInitParameters'' = Some (map_string_int [''id'' \<mapsto> 7])) \<and>
   (\<exists>res pool' evs c m headers.
      DoRequest
        (\<lparr>NewClient = (\<lambda>url roundTripper timeout. Inr url), Unmarshal = (\<lambda>data. Inr data),
          Call = (\<lambda>client method params. Inr (length params))\<rparr>
           :: (string, unit, string, unit, nat) library)
        \<lparr>Timeout = 0\<rparr> [7]
        \<lparr>Endpoint = ''https://api.example.com'', UserName = ''u'', APIKey = ''k'',
         Debug = False\<rparr>
        ''SoftLayer_Account'' ''getObject'' []
        \<lparr>Id' = None, Mask = ''id'', Filter = ''{}'', Limit = Some 0, Offset = None\<rparr>
        Map.empty = (res, pool', evs) \<and>
      Call_called c m [map_string_interface [''headers'' \<mapsto> map_string_interface headers]]
        \<in> set evs \<and>
      headers ''SoftLayer_AccountInitParameters'' = None)"
proof -
  let ?lib = "\<lparr>NewClient = (\<lambda>url roundTripper timeout. Inr url),
               Unmarshal = (\<lambda>data. Inr data),
               Call = (\<lambda>client method params. Inr (length params))\<rparr>
                :: (string, unit, string, unit, nat) library"
  let ?sess = "\<lparr>Endpoint = ''https://api.example.com'', UserName = ''u'', APIKey = ''k'',
                Debug = False\<rparr>"
  have witness: "\<exists>res pool' evs c m headers.
      DoRequest ?lib \<lparr>Timeout = 0\<rparr> [7] ?sess ''SoftLayer_Account'' ''getObject'' [] options
        Map.empty = (res, pool', evs) \<and>
      Call_called c m [map_string_interface [''headers'' \<mapsto> map_string_interface headers]]
        \<in> set evs \<and>
      headers ''SoftLayer_AccountInitParameters'' = expected"
    if s: "\<And>v. opt_id (OptionSet_of [7] options) = Some v \<longrightarrow>
                Some (map_string_int [''id'' \<mapsto> v]) = expected"
      and n: "opt_id (OptionSet_of [7] options) = None \<longrightarrow> None = expected"
    for options and expected :: "(unit, string) interface option"
  proof -
    obtain res pool' evs where
      run: "DoRequest ?lib \<lparr>Timeout = 0\<rparr> [7] ?sess ''SoftLayer_Account'' ''getObject'' []
              options Map.empty = (res, pool', evs)"
      using prod_cases3 by blast
    then obtain ps where
      ev: "Call_called ''https://api.example.com/SoftLayer_Account'' ''getObject'' ps \<in> set evs"
      by (auto simp: DoRequest_def DoRequest_client_def DoRequest_headers_def
            headers_ObjectFilter_def Let_def split: if_splits)
    from InitParameters_header [OF run ev] s n obtain headers where
      "ps = [map_string_interface [''headers'' \<mapsto> map_string_interface headers]]"
      "headers ''SoftLayer_AccountInitParameters'' = expected"
      by (cases "opt_id (OptionSet_of [7] options)") auto
    with run ev show ?thesis by blast
  qed
  show ?thesis
    by (intro conjI witness) (simp_all add: OptionSet_of_def deref_def)
qed

lemma deref_new:
  "new mem v = (p, mem') \<Longrightarrow> deref mem' p = v"
  by (auto simp: new_def deref_def)

lemma deref_new_other:
  "new mem v = (p, mem') \<Longrightarrow> allocated mem q \<Longrightarrow>
     map_option (deref mem') q = map_option (deref mem) q"
  by (cases q) (auto simp: new_def deref_def allocated_def nth_append)

lemma allocated_new:
  "new mem v = (p, mem') \<Longrightarrow> allocated mem' (Some p)"
  "new mem v = (p, mem') \<Longrightarrow> allocated mem q \<Longrightarrow> allocated mem' q"
  by (auto simp: new_def allocated_def split: option.splits)

lemma OptionSet_of_new:
  "new mem v = (p, mem') \<Longrightarrow> Options_allocated mem options \<Longrightarrow>
     OptionSet_of mem' options = OptionSet_of mem options"
  by (simp add: OptionSet_of_def Options_allocated_def deref_new_other)

lemma Id_non_destructive:
  assumes "Options_allocated mem (Options r)"
      and "Compliance_Report_Type_Id r v mem = (r', mem')"
  shows "OptionSet_of mem' (Options r') = (OptionSet_of mem (Options r))\<lparr>opt_id := Some v\<rparr>"
    and "OptionSet_of mem' (Options r) = OptionSet_of mem (Options r)"
    and "Session r' = Session r"
    and "Options_allocated mem' (Options r')"
  using assms
  by (auto simp: Compliance_Report_Type_Id_def OptionSet_of_def Options_allocated_def
        deref_new deref_new_other allocated_new split: prod.splits)

lemma Limit_non_destructive:
  assumes "Options_allocated mem (Options r)"
      and "Compliance_Report_Type_Limit r v mem = (r', mem')"
  shows "OptionSet_of mem' (Options r') = (OptionSet_of mem (Options r))\<lparr>opt_limit := Some v\<rparr>"
    and "OptionSet_of mem' (Options r) = OptionSet_of mem (Options r)"
    and "Session r' = Session r"
    and "Options_allocated mem' (Options r')"
  using assms
  by (auto simp: Compliance_Report_Type_Limit_def OptionSet_of_def Options_allocated_def
        deref_new deref_new_other allocated_new split: prod.splits)

lemma Offset_non_destructive:
  assumes "Options_allocated mem (Options r)"
      and "Compliance_Report_Type_Offset r v mem = (r', mem')"
  shows "OptionSet_of mem' (Options r') = (OptionSet_of mem (Options r))\<lparr>opt_offset := Some v\<rparr>"
    and "OptionSet_of mem' (Options r) = OptionSet_of mem (Options r)"
    and "Session r' = Session r"
    and "Options_allocated mem' (Options r')"
  using assms
  by (auto simp: Compliance_Report_Type_Offset_def OptionSet_of_def Options_allocated_def
        deref_new deref_new_other allocated_new split: prod.splits)

text \<open>
  C8. The builders do not change their receiver. For a receiver \<open>r\<close> whose pointers refer to
  cells of the store, \<open>Id\<close>, \<open>Limit\<close> and \<open>Offset\<close> return a value that reads as \<open>r\<close> with the
  one field set to the argument, with the same session, and \<open>r\<close> itself reads in the store
  afterwards as it did before; \<open>Mask\<close> and \<open>Filter\<close> return a value that reads as \<open>r\<close> with
  the mask (wrapped by the builder's rule) or the filter set, and leave the store alone.
  Two values built from one base, one by \<open>Limit\<close> and one by \<open>Offset\<close>, do not see each
  other's setting, and the base sees neither.
\<close>

theorem builders_non_destructive:
  assumes "Options_allocated mem (Options r)"
  shows "(case Compliance_Report_Type_Id r v mem of
            (r', mem') \<Rightarrow>
              OptionSet_of mem' (Options r') = (OptionSet_of mem (Options r))\<lparr>opt_id := Some v\<rparr> \<and>
              Session r' = Session r \<and>
              OptionSet_of mem' (Options r) = OptionSet_of mem (Options r)) \<and>
         (case Compliance_Report_Type_Limit r v mem of
            (r', mem') \<Rightarrow>
              OptionSet_of mem' (Options r') =
                (OptionSet_of mem (Options r))\<lparr>opt_limit := Some v\<rparr> \<and>
              Session r' = Session r \<and>
              OptionSet_of mem' (Options r) = OptionSet_of mem (Options r)) \<and>
         (case Compliance_Report_Type_Offset r v mem of
            (r', mem') \<Rightarrow>
              OptionSet_of mem' (Options r') =
                (OptionSet_of mem (Options r))\<lparr>opt_offset := Some v\<rparr> \<and>
              Session r' = Session r \<and>
              OptionSet_of mem' (Options r) = OptionSet_of mem (Options r)) \<and>
         OptionSet_of mem (Options (Compliance_Report_Type_Mask r s)) =
           (OptionSet_of mem (Options r))
             \<lparr>opt_mask := (if \<not> HasPrefix s ''mask['' \<and> Contains s ''[''
                            then ''mask['' @ s @ '']'' else s)\<rparr> \<and>
         Session (Compliance_Report_Type_Mask r s) = Session r \<and>
         OptionSet_of mem (Options (Compliance_Report_Type_Filter r s)) =
           (OptionSet_of mem (Options r))\<lparr>opt_filter := s\<rparr> \<and>
         Session (Compliance_Report_Type_Filter r s) = Session r \<and>
         (case Compliance_Report_Type_Limit r v mem of
            (a, mem1) \<Rightarrow>
              (case Compliance_Report_Type_Offset r w mem1 of
                 (b, mem2) \<Rightarrow>
                   OptionSet_of mem2 (Options a) =
                     (OptionSet_of mem (Options r))\<lparr>opt_limit := Some v\<rparr> \<and>
                   OptionSet_of mem2 (Options b) =
                     (OptionSet_of mem (Options r))\<lparr>opt_offset := Some w\<rparr> \<and>
                   OptionSet_of mem2 (Options r) = OptionSet_of mem (Options r)))"
proof -
  have id: "case Compliance_Report_Type_Id r v mem of
            (r', mem') \<Rightarrow>
              OptionSet_of mem' (Options r') = (OptionSet_of mem (Options r))\<lparr>opt_id := Some v\<rparr> \<and>
              Session r' = Session r \<and>
              OptionSet_of mem' (Options r) = OptionSet_of mem (Options r)"
    using Id_non_destructive [OF assms] by (auto split: prod.splits)
  have limit: "case Compliance_Report_Type_Limit r v mem of
            (r', mem') \<Rightarrow>
              OptionSet_of mem' (Options r') =
                (OptionSet_of mem (Options r))\<lparr>opt_limit := Some v\<rparr> \<and>
              Session r' = Session r \<and>
              OptionSet_of mem' (Options r) = OptionSet_of mem (Options r)"
    using Limit_non_destructive [OF assms] by (auto split: prod.splits)
  have offset: "case Compliance_Report_Type_Offset r v mem of
            (r', mem') \<Rightarrow>
              OptionSet_of mem' (Options r') =
                (OptionSet_of mem (Options r))\<lparr>opt_offset := Some v\<rparr> \<and>
              Session r' = Session r \<and>
              OptionSet_of mem' (Options r) = OptionSet_of mem (Options r)"
    using Offset_non_destructive [OF assms] by (auto split: prod.splits)
  have mask: "OptionSet_of mem (Options (Compliance_Report_Type_Mask r s)) =
           (OptionSet_of mem (Options r))
             \<lparr>opt_mask := (if \<not> HasPrefix s ''mask['' \<and> Contains s ''[''
                            then ''mask['' @ s @ '']'' else s)\<rparr> \<and>
         Session (Compliance_Report_Type_Mask r s) = Session r"
    by (simp add: Compliance_Report_Type_Mask_def OptionSet_of_def Let_def)
  have filter: "OptionSet_of mem (Options (Compliance_Report_Type_Filter r s)) =
           (OptionSet_of mem (Options r))\<lparr>opt_filter := s\<rparr> \<and>
         Session (Compliance_Report_Type_Filter r s) = Session r"
    by (simp add: Compliance_Report_Type_Filter_def OptionSet_of_def)
  have both: "case Compliance_Report_Type_Limit r v mem of
            (a, mem1) \<Rightarrow>
              (case Compliance_Report_Type_Offset r w mem1 of
                 (b, mem2) \<Rightarrow>
                   OptionSet_of mem2 (Options a) =
                     (OptionSet_of mem (Options r))\<lparr>opt_limit := Some v\<rparr> \<and>
                   OptionSet_of mem2 (Options b) =
                     (OptionSet_of mem (Options r))\<lparr>opt_offset := Some w\<rparr> \<and>
                   OptionSet_of mem2 (Options r) = OptionSet_of mem (Options r))"
  proof -
    obtain a mem1 where l: "Compliance_Report_Type_Limit r v mem = (a, mem1)"
      by fastforce
    obtain b mem2 where o: "Compliance_Report_Type_Offset r w mem1 = (b, mem2)"
      by fastforce
    note la = Limit_non_destructive [OF assms l]
    have r1: "Options_allocated mem1 (Options r)"
      using assms l
      by (auto simp: Compliance_Report_Type_Limit_def Options_allocated_def allocated_new
            split: prod.splits)
    note ob = Offset_non_destructive [OF r1 o]
    have "OptionSet_of mem2 (Options a) = OptionSet_of mem1 (Options a)"
      using o la(4)
      by (auto simp: Compliance_Report_Type_Offset_def OptionSet_of_new split: prod.splits)
    with la ob l o show ?thesis by simp
  qed
  from id limit offset mask filter both show ?thesis by blast
qed

theorem builders_non_destructive_witness:
  "Options_allocated [5]
     (Options \<lparr>Session = \<lparr>Endpoint = ''e'', UserName = ''u'', APIKey = ''k'', Debug = False\<rparr>,
               Options = \<lparr>Id' = None, Mask = ''id'', Filter = [], Limit = Some 0,
                          Offset = None\<rparr>\<rparr>) \<and>
   (case Compliance_Report_Type_Offset
           \<lparr>Session = \<lparr>Endpoint = ''e'', UserName = ''u'', APIKey = ''k'', Debug = False\<rparr>,
            Options = \<lparr>Id' = None, Mask = ''id'', Filter = [], Limit = Some 0,
                       Offset = None\<rparr>\<rparr> 9 [5] of
      (r', mem') \<Rightarrow>
        mem' = [5, 9] \<and>
        OptionSet_of mem' (Options r') =
          \<lparr>opt_id = None, opt_mask = ''id'', opt_filter = [], opt_limit = Some 5,
           opt_offset = Some 9\<rparr> \<and>
        OptionSet_of mem'
          (Options \<lparr>Session = \<lparr>Endpoint = ''e'', UserName = ''u'', APIKey = ''k'',
                                Debug = False\<rparr>,
                    Options = \<lparr>Id' = None, Mask = ''id'', Filter = [], Limit = Some 0,
                               Offset = None\<rparr>\<rparr>) =
          \<lparr>opt_id = None, opt_mask = ''id'', opt_filter = [], opt_limit = Some 5,
           opt_offset = None\<rparr>)"
proof -
  let ?r = "\<lparr>Session = \<lparr>Endpoint = ''e'', UserName = ''u'', APIKey = ''k'', Debug = False\<rparr>,
            Options = \<lparr>Id' = None, Mask = ''id'', Filter = [], Limit = Some 0,
                       Offset = None\<rparr>\<rparr>"
  have a: "Options_allocated [5] (Options ?r)"
    by (simp add: Options_allocated_def allocated_def)
  have before: "OptionSet_of [5] (Options ?r) =
          \<lparr>opt_id = None, opt_mask = ''id'', opt_filter = [], opt_limit = Some 5,
           opt_offset = None\<rparr>"
    by (simp add: OptionSet_of_def deref_def)
  have mem: "snd (Compliance_Report_Type_Offset ?r 9 [5]) = [5, 9]"
    by (simp add: Compliance_Report_Type_Offset_def new_def)
  from builders_non_destructive [OF a, of 9] before mem a show ?thesis
    by (auto split: prod.splits)
qed

lemma DoRequest_client_miss:
  assumes "pool service = None"
  shows "DoRequest_client lib x sess service pool =
           (case NewClient lib (Endpoint sess @ ''/'' @ service)
                   (if Debug sess then Some debugRoundTripper else None)
                   (if Timeout x \<noteq> 0 then Timeout x else DefaultXmlRpcTimeout) of
              Inl err \<Rightarrow> Inl (Could_not_create_client service err)
            | Inr client \<Rightarrow> Inr client,
            case NewClient lib (Endpoint sess @ ''/'' @ service)
                   (if Debug sess then Some debugRoundTripper else None)
                   (if Timeout x \<noteq> 0 then Timeout x else DefaultXmlRpcTimeout) of
              Inl err \<Rightarrow> pool
            | Inr client \<Rightarrow> pool(service \<mapsto> client),
            [NewClient_called (Endpoint sess @ ''/'' @ service)
               (if Debug sess then Some debugRoundTripper else None)
               (if Timeout x \<noteq> 0 then Timeout x else DefaultXmlRpcTimeout)])"
  using assms by (simp add: DoRequest_client_def Let_def split: sum.splits)

lemma DoRequest_client_hit:
  assumes "pool service = Some c"
  shows "DoRequest_client lib x sess service pool = (Inr c, pool, [])"
  using assms by (simp add: DoRequest_client_def)

lemma DoRequest_events:
  "snd (snd (DoRequest lib x mem sess service method args options pool)) =
     snd (snd (DoRequest_client lib x sess service pool)) @
     (case (fst (DoRequest_client lib x sess service pool),
            DoRequest_headers lib mem sess service options) of
        (Inr c, Inr headers) \<Rightarrow> [Call_called c method (DoRequest_params headers args)]
      | _ \<Rightarrow> [])"
  by (simp add: DoRequest_def Let_def split: prod.splits sum.splits)

lemma DoRequest_pool:
  "fst (snd (DoRequest lib x mem sess service method args options pool)) =
     fst (snd (DoRequest_client lib x sess service pool))"
  by (simp add: DoRequest_def Let_def split: prod.splits sum.splits)

text \<open>
  C6. When the service is not in the pool and the construction of its client fails,
  \<open>DoRequest\<close> returns the client-creation error at once (the one library call made is the
  failed construction) and the pool is returned as it was, without an entry for the
  service; any later invocation for that service on this pool starts by attempting the
  construction again.
\<close>

theorem client_creation_failure:
  assumes "pool service = None"
      and "NewClient lib (Endpoint sess @ ''/'' @ service)
             (if Debug sess then Some debugRoundTripper else None)
             (if Timeout x \<noteq> 0 then Timeout x else DefaultXmlRpcTimeout) = Inl err"
  shows "DoRequest lib x mem sess service method args options pool =
           (Inl (Could_not_create_client service err), pool,
            [NewClient_called (Endpoint sess @ ''/'' @ service)
               (if Debug sess then Some debugRoundTripper else None)
               (if Timeout x \<noteq> 0 then Timeout x else DefaultXmlRpcTimeout)]) \<and>
         (\<exists>res2 pool2 rest.
            DoRequest lib2 x2 mem2 sess2 service method2 args2 options2
              (fst (snd (DoRequest lib x mem sess service method args options pool))) =
              (res2, pool2,
               NewClient_called (Endpoint sess2 @ ''/'' @ service)
                 (if Debug sess2 then Some debugRoundTripper else None)
                 (if Timeout x2 \<noteq> 0 then Timeout x2 else DefaultXmlRpcTimeout) # rest))"
proof -
  have first: "DoRequest lib x mem sess service method args options pool =
           (Inl (Could_not_create_client service err), pool,
            [NewClient_called (Endpoint sess @ ''/'' @ service)
               (if Debug sess then Some debugRoundTripper else None)
               (if Timeout x \<noteq> 0 then Timeout x else DefaultXmlRpcTimeout)])"
    using assms by (simp add: DoRequest_def DoRequest_client_miss)
  have "\<exists>rest. snd (snd (DoRequest lib2 x2 mem2 sess2 service method2 args2 options2 pool)) =
               NewClient_called (Endpoint sess2 @ ''/'' @ service)
                 (if Debug sess2 then Some debugRoundTripper else None)
                 (if Timeout x2 \<noteq> 0 then Timeout x2 else DefaultXmlRpcTimeout) # rest"
    using assms(1) by (simp add: DoRequest_events DoRequest_client_miss)
  then have "\<exists>res2 pool2 rest.
            DoRequest lib2 x2 mem2 sess2 service method2 args2 options2 pool =
              (res2, pool2,
               NewClient_called (Endpoint sess2 @ ''/'' @ service)
                 (if Debug sess2 then Some debugRoundTripper else None)
                 (if Timeout x2 \<noteq> 0 then Timeout x2 else DefaultXmlRpcTimeout) # rest)"
    by (metis prod.collapse)
  with first show ?thesis by simp
qed

theorem client_creation_failure_witness:
  "DoRequest
     (\<lparr>NewClient = (\<lambda>url roundTripper timeout.
                     if HasPrefix url ''http'' then Inr url else Inl ''bad url''),
       Unmarshal = (\<lambda>data. Inr data),
       Call = (\<lambda>client method params. Inr (length params))\<rparr>
        :: (string, string, string, unit, nat) library)
     \<lparr>Timeout = 0\<rparr> []
     \<lparr>Endpoint = ''ftp://h'', UserName = ''u'', APIKey = ''k'', Debug = True\<rparr>
     ''Widget'' ''getObject'' []
     \<lparr>Id' = None, Mask = [], Filter = [], Limit = None, Offset = None\<rparr>
     Map.empty =
     (Inl (Could_not_create_client ''Widget'' ''bad url''), Map.empty,
      [NewClient_called ''ftp://h/Widget'' (Some debugRoundTripper) 30000000000]) \<and>
   (\<exists>res2 pool2 rest.
      DoRequest
        (\<lparr>NewClient = (\<lambda>url roundTripper timeout.
                        if HasPrefix url ''http'' then Inr url else Inl ''bad url''),
          Unmarshal = (\<lambda>data. Inr data),
          Call = (\<lambda>client method params. Inr (length params))\<rparr>
           :: (string, string, string, unit, nat) library)
        \<lparr>Timeout = 5\<rparr> []
        \<lparr>Endpoint = ''http://h'', UserName = ''u'', APIKey = ''k'', Debug = False\<rparr>
        ''Widget'' ''getObject'' []
        \<lparr>Id' = None, Mask = [], Filter = [], Limit = None, Offset = None\<rparr>
        Map.empty =
        (res2, pool2, NewClient_called ''http://h/Widget'' None 5 # rest))"
proof -
  let ?lib = "\<lparr>NewClient = (\<lambda>url roundTripper timeout.
                     if HasPrefix url ''http'' then Inr url else Inl ''bad url''),
       Unmarshal = (\<lambda>data. Inr data),
       Call = (\<lambda>client method params. Inr (length params))\<rparr>
        :: (string, string, string, unit, nat) library"
  let ?sess = "\<lparr>Endpoint = ''ftp://h'', UserName = ''u'', APIKey = ''k'', Debug = True\<rparr>"
  let ?sess2 = "\<lparr>Endpoint = ''http://h'', UserName = ''u'', APIKey = ''k'', Debug = False\<rparr>"
  let ?options = "\<lparr>Id' = None, Mask = [], Filter = [], Limit = None, Offset = None\<rparr>"
  have miss: "(Map.empty :: string \<rightharpoonup> string) ''Widget'' = None"
    by simp
  have fails: "NewClient ?lib (Endpoint ?sess @ ''/'' @ ''Widget'')
             (if Debug ?sess then Some debugRoundTripper else None)
             (if Timeout \<lparr>Timeout = 0\<rparr> \<noteq> 0 then Timeout \<lparr>Timeout = 0\<rparr>
              else DefaultXmlRpcTimeout) = Inl ''bad url''"
    by (simp add: HasPrefix_def)
  from client_creation_failure [OF miss fails, of "[]" "''getObject''" "[]" ?options
      ?lib "\<lparr>Timeout = 5\<rparr>" "[]" ?sess2 "''getObject''" "[]" ?options]
  show ?thesis
    by (elim conjE) (simp add: DefaultXmlRpcTimeout_def Second_def)
qed

lemma DoRequest_headers_session:
  "DoRequest_headers lib mem (sess\<lparr>Endpoint := endpoint', Debug := debug'\<rparr>) service options =
     DoRequest_headers lib mem sess service options"
  by (simp add: DoRequest_headers_def headers_authenticate_def)

lemma DoRequest_miss:
  assumes "pool service = None"
      and "NewClient lib (Endpoint sess @ ''/'' @ service)
             (if Debug sess then Some debugRoundTripper else None)
             (if Timeout x \<noteq> 0 then Timeout x else DefaultXmlRpcTimeout) = Inr client"
  shows "DoRequest lib x mem sess service method args options pool =
           (case DoRequest_headers lib mem sess service options of
              Inl err \<Rightarrow>
                (Inl err, pool(service \<mapsto> client),
                 [NewClient_called (Endpoint sess @ ''/'' @ service)
                    (if Debug sess then Some debugRoundTripper else None)
                    (if Timeout x \<noteq> 0 then Timeout x else DefaultXmlRpcTimeout)])
            | Inr headers \<Rightarrow>
                (case Call lib client method
                        (map_string_interface [''headers'' \<mapsto> map_string_interface headers]
                           # args) of
                   Inl err \<Rightarrow> Inl (Call_failed err)
                 | Inr res \<Rightarrow> Inr res,
                 pool(service \<mapsto> client),
                 [NewClient_called (Endpoint sess @ ''/'' @ service)
                    (if Debug sess then Some debugRoundTripper else None)
                    (if Timeout x \<noteq> 0 then Timeout x else DefaultXmlRpcTimeout),
                  Call_called client method
                    (map_string_interface [''headers'' \<mapsto> map_string_interface headers]
                       # args)]))"
  using assms
  by (simp add: DoRequest_def DoRequest_client_miss DoRequest_params_eq Let_def
        split: sum.splits)

lemma DoRequest_hit:
  assumes "pool service = Some client"
  shows "DoRequest lib x mem sess service method args options pool =
           (case DoRequest_headers lib mem sess service options of
              Inl err \<Rightarrow> (Inl err, pool, [])
            | Inr headers \<Rightarrow>
                (case Call lib client method
                        (map_string_interface [''headers'' \<mapsto> map_string_interface headers]
                           # args) of
                   Inl err \<Rightarrow> Inl (Call_failed err)
                 | Inr res \<Rightarrow> Inr res,
                 pool,
                 [Call_called client method
                    (map_string_interface [''headers'' \<mapsto> map_string_interface headers]
                       # args)]))"
  using assms
  by (simp add: DoRequest_def DoRequest_client_hit DoRequest_params_eq Let_def
        split: sum.splits)

text \<open>
  C7. When the service is not in the pool, the first library call of the invocation is the
  construction of a client for the URL \<open>Endpoint/service\<close>, with the debug round tripper
  exactly when the session's debug flag is set, and with the transport's timeout when that is
  not zero and 30 seconds otherwise; when the construction succeeds the client is in the
  returned pool under the service name, and the remote call, if the header map could be
  built, is made on that client. When the service is in the pool, the pool is returned
  unchanged, no client is constructed, the remote call is made on the pooled client, and the
  whole outcome is the same for any other endpoint, debug flag and transport timeout.
\<close>

theorem client_pool:
  "(pool service = None \<longrightarrow>
      (\<exists>res pool' rest.
         DoRequest lib x mem sess service method args options pool =
           (res, pool',
            NewClient_called (Endpoint sess @ ''/'' @ service)
              (if Debug sess then Some debugRoundTripper else None)
              (if Timeout x \<noteq> 0 then Timeout x else 30 * Second) # rest) \<and>
         (\<forall>client.
            NewClient lib (Endpoint sess @ ''/'' @ service)
              (if Debug sess then Some debugRoundTripper else None)
              (if Timeout x \<noteq> 0 then Timeout x else 30 * Second) = Inr client \<longrightarrow>
            pool' = pool(service \<mapsto> client) \<and>
            (\<forall>headers. DoRequest_headers lib mem sess service options = Inr headers \<longrightarrow>
               rest = [Call_called client method
                         (map_string_interface [''headers'' \<mapsto> map_string_interface headers]
                            # args)]) \<and>
            (\<forall>err. DoRequest_headers lib mem sess service options = Inl err \<longrightarrow>
               rest = [])))) \<and>
   (\<forall>client. pool service = Some client \<longrightarrow>
      (\<exists>res evs.
         DoRequest lib x mem sess service method args options pool = (res, pool, evs) \<and>
         DoRequest lib x' mem (sess\<lparr>Endpoint := endpoint', Debug := debug'\<rparr>) service method
           args options pool = (res, pool, evs) \<and>
         (\<forall>headers. DoRequest_headers lib mem sess service options = Inr headers \<longrightarrow>
            evs = [Call_called client method
                     (map_string_interface [''headers'' \<mapsto> map_string_interface headers]
                        # args)]) \<and>
         (\<forall>err. DoRequest_headers lib mem sess service options = Inl err \<longrightarrow> evs = [])))"
proof (intro conjI impI allI)
  assume miss: "pool service = None"
  let ?url = "Endpoint sess @ ''/'' @ service"
  let ?rt = "if Debug sess then Some debugRoundTripper else None"
  let ?t = "if Timeout x \<noteq> 0 then Timeout x else 30 * Second"
  have t: "?t = (if Timeout x \<noteq> 0 then Timeout x else DefaultXmlRpcTimeout)"
    by (simp add: DefaultXmlRpcTimeout_def)
  show "\<exists>res pool' rest.
         DoRequest lib x mem sess service method args options pool =
           (res, pool', NewClient_called ?url ?rt ?t # rest) \<and>
         (\<forall>client.
            NewClient lib ?url ?rt ?t = Inr client \<longrightarrow>
            pool' = pool(service \<mapsto> client) \<and>
            (\<forall>headers. DoRequest_headers lib mem sess service options = Inr headers \<longrightarrow>
               rest = [Call_called client method
                         (map_string_interface [''headers'' \<mapsto> map_string_interface headers]
                            # args)]) \<and>
            (\<forall>err. DoRequest_headers lib mem sess service options = Inl err \<longrightarrow>
               rest = []))"
  proof (cases "NewClient lib ?url ?rt ?t")
    case (Inl err)
    then show ?thesis
      using miss unfolding t
      by (simp add: DoRequest_def DoRequest_client_miss)
  next
    case (Inr client)
    then show ?thesis
      using miss DoRequest_miss [of pool service lib sess x client mem "method" args options]
      unfolding t
      by (cases "DoRequest_headers lib mem sess service options") simp_all
  qed
next
  fix client
  assume hit: "pool service = Some client"
  have hit': "DoRequest lib x' mem (sess\<lparr>Endpoint := endpoint', Debug := debug'\<rparr>) service
                method args options pool =
              DoRequest lib x mem sess service method args options pool"
    using hit by (simp add: DoRequest_hit DoRequest_headers_session)
  show "\<exists>res evs.
         DoRequest lib x mem sess service method args options pool = (res, pool, evs) \<and>
         DoRequest lib x' mem (sess\<lparr>Endpoint := endpoint', Debug := debug'\<rparr>) service method
           args options pool = (res, pool, evs) \<and>
         (\<forall>headers. DoRequest_headers lib mem sess service options = Inr headers \<longrightarrow>
            evs = [Call_called client method
                     (map_string_interface [''headers'' \<mapsto> map_string_interface headers]
                        # args)]) \<and>
         (\<forall>err. DoRequest_headers lib mem sess service options = Inl err \<longrightarrow> evs = [])"
    using hit unfolding hit'
    by (cases "DoRequest_headers lib mem sess service options")
       (simp_all add: DoRequest_hit)
qed

theorem client_pool_witness:
  "(\<exists>res.
      DoRequest
        (\<lparr>NewClient = (\<lambda>url roundTripper timeout. Inr url), Unmarshal = (\<lambda>data. Inr data),
          Call = (\<lambda>client method params. Inr (length params))\<rparr>
           :: (string, unit, string, unit, nat) library)
        \<lparr>Timeout = 0\<rparr> []
        \<lparr>Endpoint = ''https://api.example.com'', UserName = ''u'', APIKey = ''k'',
         Debug = False\<rparr>
        ''Widget'' ''getObject'' []
        \<lparr>Id' = None, Mask = [], Filter = [], Limit = None, Offset = None\<rparr>
        Map.empty =
        (res, [''Widget'' \<mapsto> ''https://api.example.com/Widget''],
         [NewClient_called ''https://api.example.com/Widget'' None 30000000000,
          Call_called ''https://api.example.com/Widget'' ''getObject''
            [map_string_interface
               [''headers'' \<mapsto>
                  map_string_interface
                    [''authenticate'' \<mapsto>
                       map_string_string [''username'' \<mapsto> ''u'', ''apiKey'' \<mapsto> ''k'']]]]])) \<and>
   (\<exists>res.
      DoRequest
        (\<lparr>NewClient = (\<lambda>url roundTripper timeout. Inr url), Unmarshal = (\<lambda>data. Inr data),
          Call = (\<lambda>client method params. Inr (length params))\<rparr>
           :: (string, unit, string, unit, nat) library)
        \<lparr>Timeout = 7\<rparr> []
        \<lparr>Endpoint = ''https://other.example.org'', UserName = ''u'', APIKey = ''k'',
         Debug = True\<rparr>
        ''Widget'' ''getObject'' []
        \<lparr>Id' = None, Mask = [], Filter = [], Limit = None, Offset = None\<rparr>
        [''Widget'' \<mapsto> ''https://api.example.com/Widget''] =
        (res, [''Widget'' \<mapsto> ''https://api.example.com/Widget''],
         [Call_called ''https://api.example.com/Widget'' ''getObject''
            [map_string_interface
               [''headers'' \<mapsto>
                  map_string_interface
                    [''authenticate'' \<mapsto>
                       map_string_string [''username'' \<mapsto> ''u'', ''apiKey'' \<mapsto> ''k'']]]]]))"
proof -
  let ?lib = "\<lparr>NewClient = (\<lambda>url roundTripper timeout. Inr url),
               Unmarshal = (\<lambda>data. Inr data),
               Call = (\<lambda>client method params. Inr (length params))\<rparr>
                :: (string, unit, string, unit, nat) library"
  let ?sess = "\<lparr>Endpoint = ''https://api.example.com'', UserName = ''u'', APIKey = ''k'',
                Debug = False\<rparr>"
  let ?sess' = "\<lparr>Endpoint = ''https://other.example.org'', UserName = ''u'', APIKey = ''k'',
                Debug = True\<rparr>"
  let ?options = "\<lparr>Id' = None, Mask = [], Filter = [], Limit = None, Offset = None\<rparr>"
  let ?headers = "[''authenticate'' \<mapsto>
                     map_string_string [''username'' \<mapsto> ''u'', ''apiKey'' \<mapsto> ''k'']]
                  :: string \<rightharpoonup> (unit, string) interface"
  have h: "DoRequest_headers ?lib [] ?sess ''Widget'' ?options = Inr ?headers"
    by (simp add: DoRequest_headers_def headers_authenticate_def headers_InitParameters_def
          headers_ObjectMask_def headers_ObjectFilter_def headers_resultLimit_def)
  have h': "DoRequest_headers ?lib [] ?sess' ''Widget'' ?options = Inr ?headers"
    by (simp add: DoRequest_headers_def headers_authenticate_def headers_InitParameters_def
          headers_ObjectMask_def headers_ObjectFilter_def headers_resultLimit_def)
  from client_pool [of Map.empty "''Widget''" ?lib "\<lparr>Timeout = 0\<rparr>" "[]" ?sess
      "''getObject''" "[]" ?options,
      where x' = "\<lparr>Timeout = 0\<rparr>" and endpoint' = "''https://api.example.com''"
        and debug' = False] h
  have miss: "\<exists>res.
      DoRequest ?lib \<lparr>Timeout = 0\<rparr> [] ?sess ''Widget'' ''getObject'' [] ?options Map.empty =
        (res, [''Widget'' \<mapsto> ''https://api.example.com/Widget''],
         [NewClient_called ''https://api.example.com/Widget'' None 30000000000,
          Call_called ''https://api.example.com/Widget'' ''getObject''
            [map_string_interface [''headers'' \<mapsto> map_string_interface ?headers]]])"
    by (auto simp: Second_def)
  from client_pool [of "[''Widget'' \<mapsto> ''https://api.example.com/Widget'']" "''Widget''"
      ?lib "\<lparr>Timeout = 7\<rparr>" "[]" ?sess' "''getObject''" "[]" ?options,
      where x' = "\<lparr>Timeout = 0\<rparr>" and endpoint' = "''https://api.example.com''"
        and debug' = False] h'
  have hit: "\<exists>res.
      DoRequest ?lib \<lparr>Timeout = 7\<rparr> [] ?sess' ''Widget'' ''getObject'' [] ?options
        [''Widget'' \<mapsto> ''https://api.example.com/Widget''] =
        (res, [''Widget'' \<mapsto> ''https://api.example.com/Widget''],
         [Call_called ''https://api.example.com/Widget'' ''getObject''
            [map_string_interface [''headers'' \<mapsto> map_string_interface ?headers]]])"
    by auto
  from miss hit show ?thesis by blast
qed

lemma Contains_single: "Contains s [c] \<longleftrightarrow> c \<in> set s"
proof
  assume "Contains s [c]"
  then obtain ps ss where "s = ps @ [c] @ ss"
    by (auto simp: Contains_def sublist_def)
  then show "c \<in> set s" by simp
next
  assume "c \<in> set s"
  then obtain ps ss where "s = ps @ c # ss"
    by (meson split_list)
  then have "s = ps @ [c] @ ss" by simp
  then show "Contains s [c]"
    unfolding Contains_def sublist_def by blast
qed

lemma HasPrefix_wrapped [simp]:
  "HasPrefix (CHR ''m'' # CHR ''a'' # CHR ''s'' # CHR ''k'' # CHR ''['' # s) ''mask[''"
  by (simp add: HasPrefix_def)

lemma Mask_builder:
  "Mask (Options (Compliance_Report_Type_Mask r s)) =
     (if \<not> HasPrefix s ''mask['' \<and> Contains s ''['' then ''mask['' @ s @ '']'' else s)"
  by (simp add: Compliance_Report_Type_Mask_def Let_def)

text \<open>
  C1, as amended. Let the mask of the option set be the one the builder \<open>Mask\<close> stored for
  the string \<open>s\<close>. Whenever an invocation makes a remote call: if \<open>s\<close> contains a bracket
  and does not start with \<open>mask[\<close>, the header \<open>SoftLayer_ObjectMask\<close> is
  \<open>{mask: "mask[" + s + "]"}\<close>; if \<open>s\<close> starts with \<open>mask[\<close>, it is \<open>{mask: s}\<close>; if \<open>s\<close> is
  not empty and contains no bracket, the builder stored \<open>s\<close> as it is and the transport
  wraps it, so the header is again \<open>{mask: "mask[" + s + "]"}\<close>; if \<open>s\<close> is empty there is no
  such header. The builder and the transport agree (the transport sends what the builder
  stored) on every \<open>s\<close> that contains a bracket or starts with \<open>mask[\<close>. Every mask that is
  sent starts with \<open>mask[\<close>, and the builder leaves such a mask as it is: nothing is wrapped
  twice.
\<close>

theorem mask_header:
  assumes "DoRequest lib x mem sess service method args options pool = (res, pool', evs)"
      and "Call_called c m ps \<in> set evs"
      and "Mask options = Mask (Options (Compliance_Report_Type_Mask r s))"
  shows "\<exists>headers.
           ps = map_string_interface [''headers'' \<mapsto> map_string_interface headers] # args \<and>
           (Contains s ''['' \<and> \<not> HasPrefix s ''mask['' \<longrightarrow>
              headers ''SoftLayer_ObjectMask'' =
                Some (map_string_string [''mask'' \<mapsto> ''mask['' @ s @ '']''])) \<and>
           (HasPrefix s ''mask['' \<longrightarrow>
              headers ''SoftLayer_ObjectMask'' = Some (map_string_string [''mask'' \<mapsto> s])) \<and>
           (\<not> Contains s ''['' \<and> s \<noteq> [] \<longrightarrow>
              Mask options = s \<and>
              headers ''SoftLayer_ObjectMask'' =
                Some (map_string_string [''mask'' \<mapsto> ''mask['' @ s @ '']''])) \<and>
           (s = [] \<longrightarrow> headers ''SoftLayer_ObjectMask'' = None) \<and>
           (Contains s ''['' \<or> HasPrefix s ''mask['' \<longrightarrow>
              headers ''SoftLayer_ObjectMask'' =
                Some (map_string_string [''mask'' \<mapsto> Mask options])) \<and>
           (\<forall>w. headers ''SoftLayer_ObjectMask'' = Some (map_string_string [''mask'' \<mapsto> w]) \<longrightarrow>
                HasPrefix w ''mask['' \<and>
                Mask (Options (Compliance_Report_Type_Mask r w)) = w)"
proof -
  from DoRequest_Call_called [OF assms(1,2)] obtain headers where
    h: "DoRequest_headers lib mem sess service options = Inr headers" and
    ps: "ps = map_string_interface [''headers'' \<mapsto> map_string_interface headers] # args"
    by blast
  have stored: "Mask options =
      (if \<not> HasPrefix s ''mask['' \<and> Contains s ''['' then ''mask['' @ s @ '']'' else s)"
    using assms(3) by (simp add: Mask_builder)
  have sent: "headers ''SoftLayer_ObjectMask'' =
           (if Mask options = [] then None
            else Some (map_string_string
                   [''mask'' \<mapsto> (if HasPrefix (Mask options) ''mask['' then Mask options
                                 else ''mask['' @ Mask options @ '']'')]))"
    by (rule headers_ObjectMask_entry [OF h])
  have prefix_nonempty: "HasPrefix w ''mask['' \<Longrightarrow> w \<noteq> []" for w
    by (auto simp: HasPrefix_def)
  have canonical: "HasPrefix w ''mask['' \<and> Mask (Options (Compliance_Report_Type_Mask r w)) = w"
    if "headers ''SoftLayer_ObjectMask'' = Some (map_string_string [''mask'' \<mapsto> w])" for w
  proof -
    from that sent have "w = (if HasPrefix (Mask options) ''mask['' then Mask options
                                 else ''mask['' @ Mask options @ '']'')"
      by (auto dest: map_upd_eqD1 split: if_splits)
    then have "HasPrefix w ''mask[''" by (auto split: if_splits)
    then show ?thesis by (simp add: Mask_builder)
  qed
  show ?thesis
  proof (intro exI [of _ headers] conjI impI allI)
    show "ps = map_string_interface [''headers'' \<mapsto> map_string_interface headers] # args"
      by (rule ps)
  next
    assume "Contains s ''['' \<and> \<not> HasPrefix s ''mask[''"
    then show "headers ''SoftLayer_ObjectMask'' =
                Some (map_string_string [''mask'' \<mapsto> ''mask['' @ s @ '']''])"
      using sent stored by simp
  next
    assume "HasPrefix s ''mask[''"
    then show "headers ''SoftLayer_ObjectMask'' = Some (map_string_string [''mask'' \<mapsto> s])"
      using sent stored prefix_nonempty by simp
  next
    assume "\<not> Contains s ''['' \<and> s \<noteq> []"
    then show "Mask options = s" using stored by simp
  next
    assume a: "\<not> Contains s ''['' \<and> s \<noteq> []"
    then have "\<not> HasPrefix s ''mask[''"
      by (auto simp: HasPrefix_def Contains_single prefix_def)
    with a show "headers ''SoftLayer_ObjectMask'' =
                Some (map_string_string [''mask'' \<mapsto> ''mask['' @ s @ '']''])"
      using sent stored by simp
  next
    assume "s = []"
    then show "headers ''SoftLayer_ObjectMask'' = None"
      using sent stored by (simp add: HasPrefix_def Contains_single)
  next
    assume "Contains s ''['' \<or> HasPrefix s ''mask[''"
    then show "headers ''SoftLayer_ObjectMask'' =
                Some (map_string_string [''mask'' \<mapsto> Mask options])"
      using sent stored prefix_nonempty by auto
  next
    fix w
    assume "headers ''SoftLayer_ObjectMask'' = Some (map_string_string [''mask'' \<mapsto> w])"
    then show "HasPrefix w ''mask[''" using canonical by blast
  next
    fix w
    assume "headers ''SoftLayer_ObjectMask'' = Some (map_string_string [''mask'' \<mapsto> w])"
    then show "Mask (Options (Compliance_Report_Type_Mask r w)) = w" using canonical by blast
  qed
qed

theorem mask_header_witness:
  "(\<exists>res pool' evs c m headers.
      DoRequest
        (\<lparr>NewClient = (\<lambda>url roundTripper timeout. Inr url), Unmarshal = (\<lambda>data. Inr data),
          Call = (\<lambda>client method params. Inr (length params))\<rparr>
           :: (string, unit, string, unit, nat) library)
        \<lparr>Timeout = 0\<rparr> []
        \<lparr>Endpoint = ''https://api.example.com'', UserName = ''u'', APIKey = ''k'',
         Debug = False\<rparr>
        ''Widget'' ''getObject'' []
        (Options (Compliance_Report_Type_Mask
           (GetComplianceReportTypeService
              \<lparr>Endpoint = ''https://api.example.com'', UserName = ''u'', APIKey = ''k'',
         Debug = False\<rparr>) ''items[id]''))
        Map.empty = (res, pool', evs) \<and>
      Call_called c m [map_string_interface [''headers'' \<mapsto> map_string_interface headers]]
        \<in> set evs \<and>
      headers ''SoftLayer_ObjectMask'' = Some (map_string_string [''mask'' \<mapsto> ''mask[items[id]]''])) \<and>
   (\<exists>res pool' evs c m headers.
      DoRequest
        (\<lparr>NewClient = (\<lambda>url roundTripper timeout. Inr url), Unmarshal = (\<lambda>data. Inr data),
          Call = (\<lambda>client method params. Inr (length params))\<rparr>
           :: (string, unit, string, unit, nat) library)
        \<lparr>Timeout = 0\<rparr> []
        \<lparr>Endpoint = ''https://api.example.com'', UserName = ''u'', APIKey = ''k'',
         Debug = False\<rparr>
        ''Widget'' ''getObject'' []
        (Options (Compliance_Report_Type_Mask
           (GetComplianceReportTypeService
              \<lparr>Endpoint = ''https://api.example.com'', UserName = ''u'', APIKey = ''k'',
         Debug = False\<rparr>) ''mask[id]''))
        Map.empty = (res, pool', evs) \<and>
      Call_called c m [map_string_interface [''headers'' \<mapsto> map_string_interface headers]]
        \<in> set evs \<and>
      headers ''SoftLayer_ObjectMask'' = Some (map_string_string [''mask'' \<mapsto> ''mask[id]''])) \<and>
   (\<exists>res pool' evs c m headers.
      DoRequest
        (\<lparr>NewClient = (\<lambda>url roundTripper timeout. Inr url), Unmarshal = (\<lambda>data. Inr data),
          Call = (\<lambda>client method params. Inr (length params))\<rparr>
           :: (string, unit, string, unit, nat) library)
        \<lparr>Timeout = 0\<rparr> []
        \<lparr>Endpoint = ''https://api.example.com'', UserName = ''u'', APIKey = ''k'',
         Debug = False\<rparr>
        ''Widget'' ''getObject'' []
        (Options (Compliance_Report_Type_Mask
           (GetComplianceReportTypeService
              \<lparr>Endpoint = ''https://api.example.com'', UserName = ''u'', APIKey = ''k'',
         Debug = False\<rparr>) ''id''))
        Map.empty = (res, pool', evs) \<and>
      Call_called c m [map_string_interface [''headers'' \<mapsto> map_string_interface headers]]
        \<in> set evs \<and>
      headers ''SoftLayer_ObjectMask'' = Some (map_string_string [''mask'' \<mapsto> ''mask[id]''])) \<and>
   (\<exists>res pool' evs c m headers.
      DoRequest
        (\<lparr>NewClient = (\<lambda>url roundTripper timeout. Inr url), Unmarshal = (\<lambda>data. Inr data),
          Call = (\<lambda>client method params. Inr (length params))\<rparr>
           :: (string, unit, string, unit, nat) library)
        \<lparr>Timeout = 0\<rparr> []
        \<lparr>Endpoint = ''https://api.example.com'', UserName = ''u'', APIKey = ''k'',
         Debug = False\<rparr>
        ''Widget'' ''getObject'' []
        (Options (Compliance_Report_Type_Mask
           (GetComplianceReportTypeService
              \<lparr>Endpoint = ''https://api.example.com'', UserName = ''u'', APIKey = ''k'',
         Debug = False\<rparr>) []))
        Map.empty = (res, pool', evs) \<and>
      Call_called c m [map_string_interface [''headers'' \<mapsto> map_string_interface headers]]
        \<in> set evs \<and>
      headers ''SoftLayer_ObjectMask'' = None)"
proof -
  let ?lib = "\<lparr>NewClient = (\<lambda>url roundTripper timeout. Inr url),
               Unmarshal = (\<lambda>data. Inr data),
               Call = (\<lambda>client method params. Inr (length params))\<rparr>
                :: (string, unit, string, unit, nat) library"
  let ?sess = "\<lparr>Endpoint = ''https://api.example.com'', UserName = ''u'', APIKey = ''k'',
         Debug = False\<rparr>"
  let ?r = "GetComplianceReportTypeService ?sess"
  have witness: "\<exists>res pool' evs c m headers.
      DoRequest ?lib \<lparr>Timeout = 0\<rparr> [] ?sess ''Widget'' ''getObject'' []
        (Options (Compliance_Report_Type_Mask ?r s)) Map.empty = (res, pool', evs) \<and>
      Call_called c m [map_string_interface [''headers'' \<mapsto> map_string_interface headers]]
        \<in> set evs \<and>
      headers ''SoftLayer_ObjectMask'' = expected"
    if a: "Contains s ''['' \<and> \<not> HasPrefix s ''mask['' \<longrightarrow>
             Some (map_string_string [''mask'' \<mapsto> ''mask['' @ s @ '']'']) = expected"
      and b: "HasPrefix s ''mask['' \<longrightarrow> Some (map_string_string [''mask'' \<mapsto> s]) = expected"
      and c: "\<not> Contains s ''['' \<and> s \<noteq> [] \<longrightarrow>
             Some (map_string_string [''mask'' \<mapsto> ''mask['' @ s @ '']'']) = expected"
      and d: "s = [] \<longrightarrow> None = expected"
      and cases: "(Contains s ''['' \<and> \<not> HasPrefix s ''mask['') \<or> HasPrefix s ''mask['' \<or>
                  (\<not> Contains s ''['' \<and> s \<noteq> []) \<or> s = []"
    for s and expected :: "(unit, string) interface option"
  proof -
    let ?options = "Options (Compliance_Report_Type_Mask ?r s)"
    obtain res pool' evs where
      run: "DoRequest ?lib \<lparr>Timeout = 0\<rparr> [] ?sess ''Widget'' ''getObject'' []
              ?options Map.empty = (res, pool', evs)"
      using prod_cases3 by blast
    have "Filter ?options = []"
      by (simp add: Compliance_Report_Type_Mask_def GetComplianceReportTypeService_def Let_def)
    with run obtain ps where
      ev: "Call_called ''https://api.example.com/Widget'' ''getObject'' ps \<in> set evs"
      by (auto simp: DoRequest_def DoRequest_client_def DoRequest_headers_def
            headers_ObjectFilter_def Let_def)
    from mask_header [OF run ev refl] a b c d cases obtain headers where
      "ps = [map_string_interface [''headers'' \<mapsto> map_string_interface headers]]"
      "headers ''SoftLayer_ObjectMask'' = expected"
      by auto
    with run ev show ?thesis by blast
  qed
  show ?thesis
    by (intro conjI witness) (simp_all add: Contains_single HasPrefix_def)
qed

text \<open>
  The claim as first stated fails for the mask \<open>id\<close>, which has no bracket: the builder
  stores \<open>id\<close>, the transport sends \<open>mask[id]\<close>.
\<close>

theorem mask_unchanged_counterexample:
  "\<not> HasPrefix ''id'' ''mask['' \<and> \<not> Contains ''id'' ''['' \<and>
   Mask (Options (Compliance_Report_Type_Mask
     (GetComplianceReportTypeService
        \<lparr>Endpoint = ''https://api.example.com'', UserName = ''u'', APIKey = ''k'',
         Debug = False\<rparr>) ''id'')) = ''id'' \<and>
   DoRequest
     (\<lparr>NewClient = (\<lambda>url roundTripper timeout. Inr url), Unmarshal = (\<lambda>data. Inr data),
          Call = (\<lambda>client method params. Inr (length params))\<rparr>
           :: (string, unit, string, unit, nat) library)
     \<lparr>Timeout = 0\<rparr> []
     \<lparr>Endpoint = ''https://api.example.com'', UserName = ''u'', APIKey = ''k'',
         Debug = False\<rparr>
     ''Widget'' ''getObject'' []
     (Options (Compliance_Report_Type_Mask
        (GetComplianceReportTypeService
           \<lparr>Endpoint = ''https://api.example.com'', UserName = ''u'', APIKey = ''k'',
         Debug = False\<rparr>) ''id''))
     Map.empty =
     (Inr 1, [''Widget'' \<mapsto> ''https://api.example.com/Widget''],
      [NewClient_called ''https://api.example.com/Widget'' None 30000000000,
       Call_called ''https://api.example.com/Widget'' ''getObject''
         [map_string_interface
            [''headers'' \<mapsto>
               map_string_interface
                 [''authenticate'' \<mapsto>
                    map_string_string [''username'' \<mapsto> ''u'', ''apiKey'' \<mapsto> ''k''],
                  ''SoftLayer_ObjectMask'' \<mapsto>
                    map_string_string [''mask'' \<mapsto> ''mask[id]'']]]]]) \<and>
   ''mask[id]'' \<noteq> ''id''"
  by (simp add: HasPrefix_def Contains_single Compliance_Report_Type_Mask_def
        GetComplianceReportTypeService_def DoRequest_def DoRequest_client_def
        DoRequest_headers_def DoRequest_params_eq headers_authenticate_def
        headers_InitParameters_def headers_ObjectMask_def headers_ObjectFilter_def
        headers_resultLimit_def DefaultXmlRpcTimeout_def Second_def Let_def)

lemma DoRequest_headers_filter_error:
  assumes "Filter options \<noteq> []" and "Unmarshal lib (Filter options) = Inl err"
  shows "DoRequest_headers lib mem sess service options = Inl (Error_encoding_object_filter err)"
  using assms by (simp add: DoRequest_headers_def headers_ObjectFilter_def)

text \<open>
  C5, as amended. When the filter is not empty and \<open>json.Unmarshal\<close> rejects it, an
  invocation makes no remote call, whatever else happens. It returns the filter-encoding
  error whenever a client for the service is at hand, pooled or newly constructed; when the
  service is not pooled and the construction of its client fails, it returns the
  client-creation error, since the client is obtained before the filter is looked at.
\<close>

theorem malformed_filter:
  assumes "Filter options \<noteq> []"
      and "Unmarshal lib (Filter options) = Inl err"
      and "DoRequest lib x mem sess service method args options pool = (res, pool', evs)"
  shows "(\<forall>c m ps. Call_called c m ps \<notin> set evs) \<and>
         (\<forall>client. pool service = Some client \<longrightarrow>
            res = Inl (Error_encoding_object_filter err)) \<and>
         (\<forall>client.
            pool service = None \<and>
            NewClient lib (Endpoint sess @ ''/'' @ service)
              (if Debug sess then Some debugRoundTripper else None)
              (if Timeout x \<noteq> 0 then Timeout x else DefaultXmlRpcTimeout) = Inr client \<longrightarrow>
            res = Inl (Error_encoding_object_filter err)) \<and>
         (\<forall>e.
            pool service = None \<and>
            NewClient lib (Endpoint sess @ ''/'' @ service)
              (if Debug sess then Some debugRoundTripper else None)
              (if Timeout x \<noteq> 0 then Timeout x else DefaultXmlRpcTimeout) = Inl e \<longrightarrow>
            res = Inl (Could_not_create_client service e))"
proof -
  note h = DoRequest_headers_filter_error [OF assms(1,2), of mem sess service]
  have no_call: "Call_called c m ps \<notin> set evs" for c m ps
    using DoRequest_Call_called [OF assms(3), of c m ps] h by auto
  have hit: "res = Inl (Error_encoding_object_filter err)" if "pool service = Some client"
    for client
    using that assms(3) h by (simp add: DoRequest_hit)
  have created: "res = Inl (Error_encoding_object_filter err)"
    if "pool service = None"
       "NewClient lib (Endpoint sess @ ''/'' @ service)
              (if Debug sess then Some debugRoundTripper else None)
              (if Timeout x \<noteq> 0 then Timeout x else DefaultXmlRpcTimeout) = Inr client"
    for client
    using that assms(3) h by (simp add: DoRequest_miss)
  have failed: "res = Inl (Could_not_create_client service e)"
    if "pool service = None"
       "NewClient lib (Endpoint sess @ ''/'' @ service)
              (if Debug sess then Some debugRoundTripper else None)
              (if Timeout x \<noteq> 0 then Timeout x else DefaultXmlRpcTimeout) = Inl e"
    for e
    using that assms(3) by (simp add: DoRequest_def DoRequest_client_miss)
  from no_call hit created failed show ?thesis by blast
qed

theorem malformed_filter_witness:
  "checkValid ''{'' = Some unexpected_end_of_JSON_input \<and>
   DoRequest
     (\<lparr>NewClient = (\<lambda>url roundTripper timeout.
                          if HasPrefix url ''http'' then Inr url else Inl (Inl ''bad url'')),
          Unmarshal = (\<lambda>data. case Unmarshal_map Inr data of
                                  Inl e \<Rightarrow> Inl (Inr e) | Inr m \<Rightarrow> Inr m),
          Call = (\<lambda>client method params. Inr (length params))\<rparr>
           :: (string, string + json_error, string option, unit, nat) library)
     \<lparr>Timeout = 0\<rparr> []
     \<lparr>Endpoint = ''https://api.example.com'', UserName = ''u'', APIKey = ''k'',
      Debug = False\<rparr>
     ''Widget'' ''getObject'' [] \<lparr>Id' = None, Mask = [], Filter = ''{'', Limit = None, Offset = None\<rparr>
     Map.empty =
     (Inl (Error_encoding_object_filter (Inr (Syntax unexpected_end_of_JSON_input))),
      [''Widget'' \<mapsto> ''https://api.example.com/Widget''],
      [NewClient_called ''https://api.example.com/Widget'' None 30000000000])"
proof -
  let ?lib = "(\<lparr>NewClient = (\<lambda>url roundTripper timeout.
                          if HasPrefix url ''http'' then Inr url else Inl (Inl ''bad url'')),
          Unmarshal = (\<lambda>data. case Unmarshal_map Inr data of
                                  Inl e \<Rightarrow> Inl (Inr e) | Inr m \<Rightarrow> Inr m),
          Call = (\<lambda>client method params. Inr (length params))\<rparr>
           :: (string, string + json_error, string option, unit, nat) library)"
  let ?sess = "\<lparr>Endpoint = ''https://api.example.com'', UserName = ''u'', APIKey = ''k'',
      Debug = False\<rparr>"
  let ?options = "\<lparr>Id' = None, Mask = [], Filter = ''{'', Limit = None, Offset = None\<rparr>"
  have valid: "checkValid ''{'' = Some unexpected_end_of_JSON_input"
    by (simp add: checkValid_def reset_def scanner_step_def stateBeginValue_def isSpace_def
          pushParseState_def stateBeginStringOrEmpty_def stateBeginString_def scan_error_def
          eof_def)
  have nonempty: "Filter ?options \<noteq> []"
    by simp
  have malformed: "Unmarshal ?lib (Filter ?options) =
                     Inl (Inr (Syntax unexpected_end_of_JSON_input))"
    by (simp add: Unmarshal_map_def valid)
  have run: "DoRequest ?lib \<lparr>Timeout = 0\<rparr> [] ?sess ''Widget'' ''getObject'' [] ?options
            Map.empty =
     (Inl (Error_encoding_object_filter (Inr (Syntax unexpected_end_of_JSON_input))),
      [''Widget'' \<mapsto> ''https://api.example.com/Widget''],
      [NewClient_called ''https://api.example.com/Widget'' None 30000000000])"
    using malformed
    by (simp add: DoRequest_def DoRequest_client_def DoRequest_headers_def
          headers_ObjectFilter_def HasPrefix_def DefaultXmlRpcTimeout_def Second_def Let_def)
  from malformed_filter [OF nonempty malformed run] valid run show ?thesis
    by simp
qed

text \<open>
  The claim as first stated fails when the client cannot be constructed: the filter \<open>{\<close> is
  not valid JSON, yet the error returned is the client-creation error.
\<close>

theorem malformed_filter_counterexample:
  "checkValid ''{'' = Some unexpected_end_of_JSON_input \<and>
   DoRequest
     (\<lparr>NewClient = (\<lambda>url roundTripper timeout.
                          if HasPrefix url ''http'' then Inr url else Inl (Inl ''bad url'')),
          Unmarshal = (\<lambda>data. case Unmarshal_map Inr data of
                                  Inl e \<Rightarrow> Inl (Inr e) | Inr m \<Rightarrow> Inr m),
          Call = (\<lambda>client method params. Inr (length params))\<rparr>
           :: (string, string + json_error, string option, unit, nat) library)
     \<lparr>Timeout = 0\<rparr> []
     \<lparr>Endpoint = ''ftp://h'', UserName = ''u'', APIKey = ''k'', Debug = False\<rparr>
     ''Widget'' ''getObject'' [] \<lparr>Id' = None, Mask = [], Filter = ''{'', Limit = None, Offset = None\<rparr>
     Map.empty =
     (Inl (Could_not_create_client ''Widget'' (Inl ''bad url'')), Map.empty,
      [NewClient_called ''ftp://h/Widget'' None 30000000000])"
  by (simp add: checkValid_def reset_def scanner_step_def stateBeginValue_def isSpace_def
        pushParseState_def stateBeginStringOrEmpty_def stateBeginString_def scan_error_def
        eof_def DoRequest_def DoRequest_client_def HasPrefix_def DefaultXmlRpcTimeout_def
        Second_def)









end
